theory Spec2Isabelle
  imports Complex_Main "HOL-Library.Sublist"
begin

section \<open>Platform values shared by the widgets\<close>

text \<open>
  A thrown JavaScript error, as the handlers read it: \<open>error.name\<close> and \<open>error.message\<close>.
\<close>

datatype jserror = JSError (err_name: string) (err_message: string)

text \<open>
  A property of a JavaScript object: missing (\<open>undefined\<close>), \<open>null\<close>, or a value.
\<close>

datatype 'a field = Absent | Null | Val 'a


text \<open>\<open>x || d\<close> for a string-valued property \<open>x\<close>: the empty string is falsy.\<close>

fun js_or :: "string field \<Rightarrow> string \<Rightarrow> string" where
  "js_or (Val s) d = (if s = [] then d else s)"
| "js_or Null d = d"
| "js_or Absent d = d"

text \<open>Decimal rendering of a number inside a template literal.\<close>

definition digit :: "nat \<Rightarrow> char" where
  "digit d = ''0123456789'' ! d"

fun string_of_nat :: "nat \<Rightarrow> string" where
  "string_of_nat n =
     (if n < 10 then [digit n] else string_of_nat (n div 10) @ [digit (n mod 10)])"

declare string_of_nat.simps [simp del]

datatype http_method = GET | POST | PUT | DELETE

datatype content = NoBody | JsonBody | FormData

record request =
  req_method :: http_method
  req_url :: string
  req_content :: content

text \<open>
  What a \<open>fetch\<close> settles to. \<open>Rejected e\<close>: the promise rejects (network failure, or an
  abort, whose error has the name \<open>AbortError\<close>). \<open>Resolved r\<close>: a response arrived;
  \<open>body_text r\<close> and \<open>body_json r\<close> are what \<open>await response.text()\<close> and
  \<open>await response.json()\<close> give, \<open>Inl e\<close> when they throw \<open>e\<close>.
  A body that parses is taken to be a JSON object, as the interfaces of the source declare;
  \<open>message\<close> and \<open>detail\<close> are the two properties the error paths read.
\<close>

record jobj =
  message :: "string field"
  detail :: "string field"

datatype 'j response = Response (status: nat) (body_text: "jserror + string") (body_json: "jserror + 'j")

definition ok :: "'j response \<Rightarrow> bool" where
  "ok r = (200 \<le> status r \<and> status r \<le> 299)"

datatype 'j outcome = Rejected jserror | Resolved "'j response"

text \<open>\<open>new Error(msg)\<close>\<close>

definition new_Error :: "string \<Rightarrow> jserror" where
  "new_Error msg = JSError ''Error'' msg"

text \<open>
  The recurring non-success branch
  \<open>const errorData = await response.json().catch(() => ({})); throw new Error(errorData.message || fallback)\<close>.
\<close>

definition errorData_message :: "('a jobj_scheme) response \<Rightarrow> string \<Rightarrow> jserror" where
  "errorData_message r fallback =
     new_Error (case body_json r of Inl _ \<Rightarrow> fallback | Inr errorData \<Rightarrow> js_or (message errorData) fallback)"

text \<open>\<open>s || d\<close> for a string \<open>s\<close>.\<close>

definition or_else :: "string \<Rightarrow> string \<Rightarrow> string" where
  "or_else s d = (if s = [] then d else s)"


text \<open>
  \<open>String.prototype.trim\<close>. Strings are lists of 8-bit characters here; these are the
  white space and line terminator characters of that range.
\<close>

definition is_whitespace :: "char \<Rightarrow> bool" where
  "is_whitespace c =
     (c \<in> set [CHR 0x09, CHR 0x0A, CHR 0x0B, CHR 0x0C, CHR 0x0D, CHR 0x20, CHR 0xA0])"

definition trim :: "string \<Rightarrow> string" where
  "trim s = rev (dropWhile is_whitespace (rev (dropWhile is_whitespace s)))"

section \<open>AgentConfig\<close>


















section \<open>UrlScraper\<close>

text \<open>
  The JSON of the scrape endpoints, with the properties the component reads:
  \<open>status\<close>, \<open>progress?.chars_added\<close> and \<open>submitted_url\<close>, besides \<open>message\<close> and
  \<open>detail\<close>.
\<close>

record scrape_json = jobj +
  sj_status :: "string field"
  sj_chars_added :: "nat field"
  sj_submitted_url :: "string field"

record UrlScraper_state =
  us_url :: string
  us_maxPages :: real
  us_isSubmitting :: bool
  us_error :: "string option"
  us_successMessage :: "string option"
  us_scrapeStatus :: "scrape_json option"
  us_isPolling :: bool

text \<open>The callbacks handed to \<open>setTimeout\<close> by the component.\<close>

datatype us_timer = ClearSuccessAndStatus | ClearStatus | PollStatus

definition scrape_status_request :: "string \<Rightarrow> string \<Rightarrow> request" where
  "scrape_status_request backendUrl kbId =
     \<lparr>req_method = GET, req_url = backendUrl @ ''/agents/'' @ kbId @ ''/scrape-status'',
      req_content = NoBody\<rparr>"

definition scrape_url_request :: "string \<Rightarrow> string \<Rightarrow> request" where
  "scrape_url_request backendUrl kbId =
     \<lparr>req_method = POST, req_url = backendUrl @ ''/agents/'' @ kbId @ ''/scrape-url'',
      req_content = JsonBody\<rparr>"

text \<open>
  The \<open>try\<close> block of \<open>fetchScrapeStatus\<close> up to \<open>setScrapeStatus\<close>: the data, or the error
  that reaches the \<open>catch\<close>. The body is parsed before \<open>response.ok\<close> is looked at.
\<close>

definition status_data :: "scrape_json outcome \<Rightarrow> jserror + scrape_json" where
  "status_data oc =
     (case oc of
        Rejected e \<Rightarrow> Inl e
      | Resolved response \<Rightarrow>
          (case body_json response of
             Inl e \<Rightarrow> Inl e
           | Inr data \<Rightarrow>
               if \<not> ok response
               then Inl (new_Error (js_or (message data) (js_or (detail data)
                            (''Failed to fetch status: '' @ string_of_nat (status response)))))
               else Inr data))"

text \<open>\<open>data.progress?.chars_added || 0\<close>\<close>

fun chars_or_0 :: "nat field \<Rightarrow> nat" where
  "chars_or_0 (Val n) = n"
| "chars_or_0 Null = 0"
| "chars_or_0 Absent = 0"

text \<open>
  \<open>fetchScrapeStatus\<close> once its request has settled: the new state, the returned boolean
  and the timeouts it set (delay in ms, callback).
\<close>

definition fetchScrapeStatus ::
  "scrape_json outcome \<Rightarrow> UrlScraper_state \<Rightarrow> UrlScraper_state \<times> bool \<times> (nat \<times> us_timer) list" where
  "fetchScrapeStatus oc st =
     (case status_data oc of
        Inr data \<Rightarrow>
          let st = st\<lparr>us_scrapeStatus := Some data\<rparr> in
          if sj_status data = Val ''processing'' then (st, True, [])
          else
            let st = st\<lparr>us_isPolling := False\<rparr> in
            if sj_status data = Val ''completed'' then
              (st\<lparr>us_successMessage := Some (''Scraping completed! Added ''
                     @ string_of_nat (chars_or_0 (sj_chars_added data))
                     @ '' characters of content.'')\<rparr>,
               False, [(5000, ClearSuccessAndStatus)])
            else if sj_status data = Val ''failed'' then
              (st\<lparr>us_error := Some ''Scraping failed. Please try again.''\<rparr>,
               False, [(5000, ClearStatus)])
            else (st, False, [])
      | Inl err \<Rightarrow>
          (st\<lparr>us_error := Some (err_message err), us_isPolling := False\<rparr>, False, []))"

text \<open>
  What the polling effect does, as a trace. \<open>pollStatus\<close> is the closure of one run of the
  effect: \<open>isPolling\<close> is the value it captured. The list holds the outcomes of the
  successive status requests; when it is used up the last request is still pending.
  A timeout set with \<open>PollStatus\<close> runs \<open>pollStatus\<close> again.
\<close>

datatype poll_event = Fetch request | Settled | SetTimeout nat us_timer

fun pollStatus ::
  "string \<Rightarrow> string \<Rightarrow> bool \<Rightarrow> scrape_json outcome list \<Rightarrow> UrlScraper_state
     \<Rightarrow> poll_event list \<times> UrlScraper_state" where
  "pollStatus backendUrl kbId isPolling [] st =
     (if isPolling then ([Fetch (scrape_status_request backendUrl kbId)], st) else ([], st))"
| "pollStatus backendUrl kbId isPolling (oc # ocs) st =
     (if isPolling then
        (case fetchScrapeStatus oc st of
           (st', shouldContinue, timers) \<Rightarrow>
             let evs = Fetch (scrape_status_request backendUrl kbId) # Settled
                         # map (\<lambda>(ms, f). SetTimeout ms f) timers
             in if shouldContinue
                then (case pollStatus backendUrl kbId isPolling ocs st' of
                        (evs', st'') \<Rightarrow> (evs @ SetTimeout 2000 PollStatus # evs', st''))
                else (evs, st'))
      else ([], st))"

text \<open>\<open>new URL(urlString)\<close> is the platform's: \<open>url_parses\<close> says whether it returns.\<close>

definition isValidUrl :: "(string \<Rightarrow> bool) \<Rightarrow> string \<Rightarrow> bool" where
  "isValidUrl url_parses urlString =
     (if url_parses urlString
      then prefix ''http://'' urlString \<or> prefix ''https://'' urlString
      else False)"

text \<open>
  \<open>handleSubmit\<close> up to the \<open>fetch\<close>: the new state, and the POST with its payload
  (\<open>url\<close>, \<open>max_pages\<close>) when one is issued.
\<close>

definition handleSubmit ::
  "(string \<Rightarrow> bool) \<Rightarrow> string \<Rightarrow> string \<Rightarrow> UrlScraper_state
     \<Rightarrow> UrlScraper_state \<times> (request \<times> string \<times> real) option" where
  "handleSubmit url_parses backendUrl kbId st =
     (if kbId = [] \<or> us_url st = [] \<or> \<not> isValidUrl url_parses (us_url st) \<or> us_maxPages st < 1
      then (st\<lparr>us_error := Some ''Please enter a valid URL (starting with http:// or https://) and set max pages to at least 1.'',
               us_successMessage := None\<rparr>, None)
      else (st\<lparr>us_isSubmitting := True, us_error := None, us_successMessage := None,
               us_scrapeStatus := None\<rparr>,
            Some (scrape_url_request backendUrl kbId, us_url st, us_maxPages st)))"


text \<open>
  The claim's condition for polling to go on, in its words: the status request succeeded
  and the returned \<open>status\<close> field equals \<open>processing\<close>.
\<close>

definition still_processing :: "scrape_json outcome \<Rightarrow> bool" where
  "still_processing oc =
     (case oc of
        Rejected e \<Rightarrow> False
      | Resolved response \<Rightarrow>
          ok response \<and>
          (case body_json response of Inl e \<Rightarrow> False | Inr data \<Rightarrow> sj_status data = Val ''processing''))"

text \<open>One round of polling that goes on: request, resolution, then the 2000 ms timeout.\<close>

definition poll_round :: "string \<Rightarrow> string \<Rightarrow> poll_event list" where
  "poll_round backendUrl kbId =
     [Fetch (scrape_status_request backendUrl kbId), Settled, SetTimeout 2000 PollStatus]"

section \<open>JSONUpload\<close>

datatype UploadStatus = Idle | Uploading | Succeeded | Failed

datatype banner = SuccessBanner | ErrorBanner

text \<open>
  The body of \<open>GET /agents/{kbId}/json\<close>: \<open>jl_items\<close> holds the elements when the
  parsed value is an array (\<open>Array.isArray(data)\<close>), each element kept as its text.
\<close>

record json_list = jobj +
  jl_items :: "string list option"

record JSONUpload_state =
  ju_jsonData :: string
  ju_isValidJson :: bool
  ju_uploadStatus :: UploadStatus
  ju_uploadMessage :: "(banner \<times> string) option"
  ju_existingJsonContent :: "string list"
  ju_isFetchingJson :: bool
  ju_fetchJsonError :: "string option"

definition json_get_request :: "string \<Rightarrow> string \<Rightarrow> request" where
  "json_get_request backendUrl kbId =
     \<lparr>req_method = GET, req_url = backendUrl @ ''/agents/'' @ kbId @ ''/json'',
      req_content = NoBody\<rparr>"

definition json_post_request :: "string \<Rightarrow> string \<Rightarrow> request" where
  "json_post_request backendUrl kbId =
     \<lparr>req_method = POST, req_url = backendUrl @ ''/agents/'' @ kbId @ ''/json'',
      req_content = JsonBody\<rparr>"

text \<open>\<open>fetchExistingJson\<close> up to the \<open>fetch\<close>, and once the request has settled.\<close>

definition fetchExistingJson ::
  "string \<Rightarrow> string \<Rightarrow> JSONUpload_state \<Rightarrow> JSONUpload_state \<times> request option" where
  "fetchExistingJson backendUrl kbId st =
     (if kbId = [] then (st, None)
      else (st\<lparr>ju_isFetchingJson := True, ju_fetchJsonError := None\<rparr>,
            Some (json_get_request backendUrl kbId)))"

definition fetchExistingJson_settled :: "json_list outcome \<Rightarrow> JSONUpload_state \<Rightarrow> JSONUpload_state" where
  "fetchExistingJson_settled oc st =
     (let thrown =
            (case oc of
               Rejected e \<Rightarrow> Inl e
             | Resolved response \<Rightarrow>
                 if \<not> ok response
                 then Inl (errorData_message response
                             (''HTTP error! status: '' @ string_of_nat (status response)))
                 else body_json response);
          st = (case thrown of
                  Inr data \<Rightarrow>
                    st\<lparr>ju_existingJsonContent := (case jl_items data of Some xs \<Rightarrow> xs | None \<Rightarrow> [])\<rparr>
                | Inl err \<Rightarrow>
                    st\<lparr>ju_fetchJsonError := Some (''Failed to fetch existing JSON: '' @ err_message err),
                       ju_existingJsonContent := []\<rparr>)
      in st\<lparr>ju_isFetchingJson := False\<rparr>)"

text \<open>
  \<open>JSON.parse\<close> is the platform's: \<open>JSON_parse s\<close> is \<open>None\<close> when it returns and
  \<open>Some e\<close> when it throws \<open>e\<close>.
\<close>

definition handleJsonChange ::
  "(string \<Rightarrow> jserror option) \<Rightarrow> string \<Rightarrow> JSONUpload_state \<Rightarrow> JSONUpload_state" where
  "handleJsonChange JSON_parse data st =
     (let st = st\<lparr>ju_jsonData := data, ju_uploadMessage := None, ju_uploadStatus := Idle\<rparr>
      in if trim data = [] then st\<lparr>ju_isValidJson := True\<rparr>
         else (case JSON_parse data of
                 None \<Rightarrow> st\<lparr>ju_isValidJson := True\<rparr>
               | Some e \<Rightarrow> st\<lparr>ju_isValidJson := False\<rparr>))"

text \<open>The \<open>disabled\<close> attribute of the upload button.\<close>

definition upload_disabled :: "JSONUpload_state \<Rightarrow> bool" where
  "upload_disabled st =
     (\<not> ju_isValidJson st \<or> trim (ju_jsonData st) = [] \<or> ju_uploadStatus st = Uploading)"

text \<open>
  The \<open>catch\<close> and \<open>finally\<close> blocks of \<open>handleUpload\<close>. In \<open>finally\<close>, \<open>uploadStatus\<close>
  is the value the handler captured when it was called.
\<close>

definition upload_catch :: "jserror \<Rightarrow> JSONUpload_state \<Rightarrow> JSONUpload_state" where
  "upload_catch err st =
     (let message = or_else (err_message err) ''An unexpected error occurred.''
      in st\<lparr>ju_uploadStatus := Failed,
            ju_uploadMessage := Some (ErrorBanner,
               if sublist ''valid JSON'' message then ''Failed to upload: Invalid JSON format.''
               else ''Failed to upload: '' @ message)\<rparr>)"

definition upload_finally :: "UploadStatus \<Rightarrow> JSONUpload_state \<Rightarrow> JSONUpload_state" where
  "upload_finally uploadStatus st =
     (if uploadStatus \<noteq> Succeeded \<and> uploadStatus \<noteq> Failed
      then st\<lparr>ju_uploadStatus := Idle\<rparr> else st)"

text \<open>\<open>handleUpload\<close> up to the \<open>fetch\<close>: the new state, and the POST when one is issued.\<close>

definition handleUpload ::
  "(string \<Rightarrow> jserror option) \<Rightarrow> string \<Rightarrow> string \<Rightarrow> JSONUpload_state
     \<Rightarrow> JSONUpload_state \<times> request option" where
  "handleUpload JSON_parse backendUrl kbId st =
     (if \<not> ju_isValidJson st \<or> trim (ju_jsonData st) = [] \<or> ju_uploadStatus st = Uploading
      then
        ((if \<not> ju_isValidJson st
          then st\<lparr>ju_uploadMessage := Some (ErrorBanner, ''Input is not valid JSON.'')\<rparr>
          else if trim (ju_jsonData st) = []
          then st\<lparr>ju_uploadMessage := Some (ErrorBanner, ''JSON input cannot be empty.'')\<rparr>
          else st), None)
      else
        let st' = st\<lparr>ju_uploadStatus := Uploading, ju_uploadMessage := None\<rparr>
        in (case JSON_parse (ju_jsonData st) of
              Some e \<Rightarrow> (upload_finally (ju_uploadStatus st) (upload_catch e st'), None)
            | None \<Rightarrow> (st', Some (json_post_request backendUrl kbId))))"

text \<open>
  \<open>handleUpload\<close> once its request has settled: the new state, and the request of the
  \<open>fetchExistingJson\<close> call when one is made and issues one.
\<close>

definition handleUpload_settled ::
  "UploadStatus \<Rightarrow> string \<Rightarrow> string \<Rightarrow> jobj outcome \<Rightarrow> JSONUpload_state
     \<Rightarrow> JSONUpload_state \<times> request option" where
  "handleUpload_settled uploadStatus backendUrl kbId oc st =
     (let thrown =
            (case oc of
               Rejected e \<Rightarrow> Inl e
             | Resolved response \<Rightarrow>
                 (case body_json response of
                    Inl e \<Rightarrow> Inl e
                  | Inr result \<Rightarrow>
                      if \<not> ok response
                      then Inl (new_Error (js_or (message result) ''Failed to upload JSON data.''))
                      else Inr result))
      in case thrown of
           Inr result \<Rightarrow>
             (case fetchExistingJson backendUrl kbId
                     (st\<lparr>ju_uploadStatus := Succeeded,
                        ju_uploadMessage := Some (SuccessBanner,
                           js_or (message result) ''JSON data uploaded successfully.''),
                        ju_jsonData := []\<rparr>) of
                (st', refetch) \<Rightarrow> (upload_finally uploadStatus st', refetch))
         | Inl err \<Rightarrow> (upload_finally uploadStatus (upload_catch err st), None))"

text \<open>
  The component as a transition system: the state after mounting, and one step per event.
  The events are a change of the textarea, a click on the upload or the refresh button,
  and the settling of an upload or of a fetch of the existing JSON. \<open>UploadSettled\<close>
  carries the \<open>uploadStatus\<close> its handler captured; the steps do not ask that an upload
  was started before it settles, or that the textarea is enabled when it changes, so that
  they allow every run of the component and more.
\<close>

definition ju_mounted :: "string \<Rightarrow> string \<Rightarrow> JSONUpload_state" where
  "ju_mounted backendUrl kbId =
     fst (fetchExistingJson backendUrl kbId
            \<lparr>ju_jsonData = [], ju_isValidJson = True, ju_uploadStatus = Idle,
             ju_uploadMessage = None, ju_existingJsonContent = [],
             ju_isFetchingJson = False, ju_fetchJsonError = None\<rparr>)"

datatype ju_event =
    JsonChanged string
  | UploadClicked
  | UploadSettled UploadStatus "jobj outcome"
  | RefreshClicked
  | ExistingSettled "json_list outcome"

fun ju_step ::
  "(string \<Rightarrow> jserror option) \<Rightarrow> string \<Rightarrow> string \<Rightarrow> JSONUpload_state \<Rightarrow> ju_event
     \<Rightarrow> JSONUpload_state" where
  "ju_step JSON_parse backendUrl kbId st (JsonChanged data) = handleJsonChange JSON_parse data st"
| "ju_step JSON_parse backendUrl kbId st UploadClicked =
     fst (handleUpload JSON_parse backendUrl kbId st)"
| "ju_step JSON_parse backendUrl kbId st (UploadSettled uploadStatus oc) =
     fst (handleUpload_settled uploadStatus backendUrl kbId oc st)"
| "ju_step JSON_parse backendUrl kbId st RefreshClicked =
     fst (fetchExistingJson backendUrl kbId st)"
| "ju_step JSON_parse backendUrl kbId st (ExistingSettled oc) = fetchExistingJson_settled oc st"

definition ju_run ::
  "(string \<Rightarrow> jserror option) \<Rightarrow> string \<Rightarrow> string \<Rightarrow> ju_event list \<Rightarrow> JSONUpload_state" where
  "ju_run JSON_parse backendUrl kbId evs =
     foldl (ju_step JSON_parse backendUrl kbId) (ju_mounted backendUrl kbId) evs"

text \<open>A stand-in for \<open>JSON.parse\<close> on two inputs, for evaluating the model.\<close>

definition JSON_parse_example :: "string \<Rightarrow> jserror option" where
  "JSON_parse_example s =
     (if s = ''[1, 2]'' then None
      else Some (JSError ''SyntaxError'' ''Unexpected token''))"

text \<open>
  The link between \<open>isValidJson\<close> and the textarea that the handlers maintain.
\<close>

definition ju_inv :: "(string \<Rightarrow> jserror option) \<Rightarrow> JSONUpload_state \<Rightarrow> bool" where
  "ju_inv JSON_parse st =
     (ju_isValidJson st \<longrightarrow> trim (ju_jsonData st) = [] \<or> JSON_parse (ju_jsonData st) = None)"

section \<open>AgentManager and the agent list of the application\<close>


























section \<open>ChatInterface\<close>

datatype sender = User | Ai

record Message =
  msg_id :: string
  msg_sender :: sender
  msg_text :: string
  msg_isLoading :: "bool option"
  msg_messageType :: string

record HistoryItem =
  hi_type :: string
  hi_content :: string

text \<open>The bodies of \<open>GET /agents/{kbId}/history\<close> and \<open>POST /agents/{kbId}/chat\<close>.\<close>

record history_json = jobj +
  hj_history :: "HistoryItem list field"

record chat_json = jobj +
  cr_type :: "string field"
  cr_content :: "string field"

record ChatInterface_state =
  ci_messages :: "Message list"
  ci_userInput :: string
  ci_isLoading :: bool
  ci_isHistoryLoading :: bool
  ci_historyError :: "string option"
  ci_isClearingHistory :: bool
  ci_clearHistoryError :: "string option"
  ci_abortControllerRef :: "nat option"

text \<open>
  An \<open>AbortController\<close> is a number. A request signalled by an aborted controller
  rejects with this error (the wording of the message is the browser's).
\<close>

definition AbortError :: jserror where
  "AbortError = JSError ''AbortError'' ''The user aborted a request.''"

text \<open>\<open>data.history.map\<close> when \<open>data.history\<close> is missing (the message is V8's).\<close>

definition history_TypeError :: jserror where
  "history_TypeError =
     JSError ''TypeError'' ''Cannot read properties of undefined (reading 'map')''"

text \<open>\<open>backendUrl.endsWith('/') ? backendUrl.slice(0, -1) : backendUrl\<close>\<close>

definition cleanBackendUrl :: "string \<Rightarrow> string" where
  "cleanBackendUrl backendUrl =
     (if backendUrl \<noteq> [] \<and> last backendUrl = CHR ''/'' then butlast backendUrl else backendUrl)"

definition history_get_request :: "string \<Rightarrow> string \<Rightarrow> request" where
  "history_get_request backendUrl kbId =
     \<lparr>req_method = GET, req_url = cleanBackendUrl backendUrl @ ''/agents/'' @ kbId @ ''/history'',
      req_content = NoBody\<rparr>"

definition history_delete_request :: "string \<Rightarrow> string \<Rightarrow> request" where
  "history_delete_request backendUrl kbId =
     \<lparr>req_method = DELETE, req_url = cleanBackendUrl backendUrl @ ''/agents/'' @ kbId @ ''/history'',
      req_content = NoBody\<rparr>"

definition chat_post_request :: "string \<Rightarrow> string \<Rightarrow> request" where
  "chat_post_request backendUrl kbId =
     \<lparr>req_method = POST, req_url = cleanBackendUrl backendUrl @ ''/agents/'' @ kbId @ ''/chat'',
      req_content = JsonBody\<rparr>"

definition welcomeMessage :: "nat \<Rightarrow> Message" where
  "welcomeMessage now =
     \<lparr>msg_id = ''ai-welcome-'' @ string_of_nat now, msg_sender = Ai,
      msg_text = ''Hello! I'm your AI assistant. How can I help you today?'',
      msg_isLoading = None, msg_messageType = ''ai''\<rparr>"

text \<open>
  \<open>loadHistory\<close> up to the \<open>fetch\<close>: the new state, the controllers it aborted, and the
  request when one is issued.
\<close>

definition loadHistory ::
  "string \<Rightarrow> string \<Rightarrow> ChatInterface_state \<Rightarrow> ChatInterface_state \<times> nat list \<times> request option" where
  "loadHistory backendUrl kbId st =
     (if kbId = [] then (st, [], None)
      else
        (st\<lparr>ci_isHistoryLoading := True, ci_historyError := None, ci_messages := [],
            ci_userInput := [], ci_isLoading := False, ci_abortControllerRef := None\<rparr>,
         (case ci_abortControllerRef st of Some c \<Rightarrow> [c] | None \<Rightarrow> []),
         Some (history_get_request backendUrl kbId)))"

definition formattedHistory :: "string \<Rightarrow> HistoryItem list \<Rightarrow> Message list" where
  "formattedHistory kbId history =
     map (\<lambda>(index, item).
            \<lparr>msg_id = ''hist-'' @ kbId @ ''-'' @ string_of_nat index,
             msg_sender = (if hi_type item = ''human'' then User else Ai),
             msg_text = hi_content item,
             msg_isLoading = None,
             msg_messageType =
               (if hi_type item = ''human'' then ''user''
                else if hi_type item = ''handoff'' then ''handoff''
                else if hi_type item = ''answer'' then ''answer'' else ''ai'')\<rparr>)
         (enumerate 0 history)"

text \<open>
  The \<open>try\<close> block of \<open>loadHistory\<close> after the \<open>fetch\<close>: the formatted history, or
  the error that reaches the \<open>catch\<close>.
\<close>

definition loadHistory_try :: "string \<Rightarrow> history_json outcome \<Rightarrow> jserror + Message list" where
  "loadHistory_try kbId oc =
     (case oc of
        Rejected e \<Rightarrow> Inl e
      | Resolved response \<Rightarrow>
          if \<not> ok response
          then (case body_text response of
                  Inl e \<Rightarrow> Inl e
                | Inr errorText \<Rightarrow>
                    Inl (new_Error (''HTTP error! status: '' @ string_of_nat (status response)
                           @ '', details: '' @ or_else errorText ''Failed to fetch history'')))
          else (case body_json response of
                  Inl e \<Rightarrow> Inl e
                | Inr data \<Rightarrow>
                    (case hj_history data of
                       Val history \<Rightarrow> Inr (formattedHistory kbId history)
                     | _ \<Rightarrow> Inl history_TypeError)))"

text \<open>
  \<open>loadHistory\<close> once its request has settled; \<open>now\<close> is \<open>Date.now()\<close>.
\<close>

definition loadHistory_settled ::
  "string \<Rightarrow> nat \<Rightarrow> history_json outcome \<Rightarrow> ChatInterface_state \<Rightarrow> ChatInterface_state" where
  "loadHistory_settled kbId now oc st =
     (let st = (case loadHistory_try kbId oc of
                  Inr formatted \<Rightarrow>
                    if length formatted = 0 then st\<lparr>ci_messages := [welcomeMessage now]\<rparr>
                    else st\<lparr>ci_messages := formatted\<rparr>
                | Inl error \<Rightarrow>
                    if err_name error = ''AbortError'' then st
                    else st\<lparr>ci_historyError :=
                              Some (or_else (err_message error) ''Failed to load chat history.''),
                            ci_messages :=
                              [\<lparr>msg_id = ''err-hist-'' @ string_of_nat now, msg_sender = Ai,
                                msg_text = ''Error loading history: ''
                                             @ or_else (err_message error) ''Unknown error'',
                                msg_isLoading = None, msg_messageType = ''error''\<rparr>]\<rparr>)
      in st\<lparr>ci_isHistoryLoading := False\<rparr>)"

text \<open>
  \<open>handleSendMessage\<close> up to the \<open>fetch\<close>: the new state, the controllers it aborted, and
  the request with the id of its placeholder message when one is issued. \<open>controller\<close> is
  the \<open>AbortController\<close> created for the request.
\<close>

definition handleSendMessage ::
  "nat \<Rightarrow> nat \<Rightarrow> string \<Rightarrow> string \<Rightarrow> ChatInterface_state
     \<Rightarrow> ChatInterface_state \<times> nat list \<times> (request \<times> string) option" where
  "handleSendMessage now controller backendUrl kbId st =
     (let trimmedInput = trim (ci_userInput st)
      in if trimmedInput = [] \<or> ci_isLoading st then (st, [], None)
         else
           let userMessage =
                 \<lparr>msg_id = ''user-'' @ string_of_nat now, msg_sender = User, msg_text = trimmedInput,
                  msg_isLoading = None, msg_messageType = ''user''\<rparr>;
               aiPlaceholderMessageId = ''ai-loading-'' @ string_of_nat now;
               aiPlaceholderMessage =
                 \<lparr>msg_id = aiPlaceholderMessageId, msg_sender = Ai, msg_text = [],
                  msg_isLoading = Some True, msg_messageType = ''ai''\<rparr>
           in (st\<lparr>ci_messages := ci_messages st @ [userMessage, aiPlaceholderMessage],
                  ci_userInput := [], ci_isLoading := True,
                  ci_abortControllerRef := Some controller\<rparr>,
               (case ci_abortControllerRef st of Some c \<Rightarrow> [c] | None \<Rightarrow> []),
               Some (chat_post_request backendUrl kbId, aiPlaceholderMessageId)))"

text \<open>
  The promise chain of \<open>handleSendMessage\<close> up to its \<open>catch\<close>: the data, or the error.
\<close>

definition handleSendMessage_try :: "chat_json outcome \<Rightarrow> jserror + chat_json" where
  "handleSendMessage_try oc =
     (case oc of
        Rejected e \<Rightarrow> Inl e
      | Resolved response \<Rightarrow>
          if \<not> ok response
          then (case body_text response of
                  Inl e \<Rightarrow> Inl e
                | Inr text \<Rightarrow>
                    Inl (new_Error (''HTTP error! status: '' @ string_of_nat (status response)
                           @ '', details: '' @ or_else text ''No details'')))
          else body_json response)"

text \<open>\<open>handleSendMessage\<close> once its request has settled.\<close>

definition handleSendMessage_settled ::
  "string \<Rightarrow> chat_json outcome \<Rightarrow> ChatInterface_state \<Rightarrow> ChatInterface_state" where
  "handleSendMessage_settled aiPlaceholderMessageId oc st =
     (let st = (case handleSendMessage_try oc of
                  Inr data \<Rightarrow>
                    st\<lparr>ci_messages :=
                         map (\<lambda>msg. if msg_id msg = aiPlaceholderMessageId
                                     then msg\<lparr>msg_text := js_or (cr_content data) ''No answer provided'',
                                              msg_isLoading := Some False,
                                              msg_messageType := js_or (cr_type data) ''ai''\<rparr>
                                     else msg)
                             (ci_messages st)\<rparr>
                | Inl error \<Rightarrow>
                    if err_name error \<noteq> ''AbortError''
                    then st\<lparr>ci_messages :=
                              map (\<lambda>msg. if msg_id msg = aiPlaceholderMessageId
                                          then msg\<lparr>msg_text := ''Error: ''
                                                       @ or_else (err_message error) ''Failed to get response'',
                                                   msg_isLoading := Some False,
                                                   msg_messageType := ''error''\<rparr>
                                          else msg)
                                  (ci_messages st)\<rparr>
                    else st)
      in st\<lparr>ci_isLoading := False, ci_abortControllerRef := None\<rparr>)"

text \<open>
  \<open>handleClearHistory\<close> up to the \<open>fetch\<close> (\<open>userConfirmed\<close> is the answer to
  \<open>window.confirm\<close>), the error its \<open>try\<close> block throws after the \<open>fetch\<close>, if any, and
  the handler once the request has settled.
\<close>

definition handleClearHistory ::
  "bool \<Rightarrow> string \<Rightarrow> string \<Rightarrow> ChatInterface_state \<Rightarrow> ChatInterface_state \<times> request option" where
  "handleClearHistory userConfirmed backendUrl kbId st =
     (if kbId = [] \<or> ci_isClearingHistory st then (st, None)
      else
        let st = st\<lparr>ci_isClearingHistory := True, ci_clearHistoryError := None\<rparr>
        in if \<not> userConfirmed then (st\<lparr>ci_isClearingHistory := False\<rparr>, None)
           else (st, Some (history_delete_request backendUrl kbId)))"

definition handleClearHistory_try :: "jobj outcome \<Rightarrow> jserror option" where
  "handleClearHistory_try oc =
     (case oc of
        Rejected e \<Rightarrow> Some e
      | Resolved response \<Rightarrow>
          if \<not> ok response
          then (case body_text response of
                  Inl e \<Rightarrow> Some e
                | Inr errorText \<Rightarrow>
                    Some (new_Error (''HTTP error! status: '' @ string_of_nat (status response)
                            @ '', details: '' @ or_else errorText ''Failed to clear history'')))
          else None)"

definition handleClearHistory_settled ::
  "nat \<Rightarrow> jobj outcome \<Rightarrow> ChatInterface_state \<Rightarrow> ChatInterface_state" where
  "handleClearHistory_settled now oc st =
     (let st = (case handleClearHistory_try oc of
                  None \<Rightarrow> st\<lparr>ci_messages := [welcomeMessage now], ci_historyError := None\<rparr>
                | Some error \<Rightarrow>
                    st\<lparr>ci_clearHistoryError :=
                         Some (or_else (err_message error) ''Failed to clear history.'')\<rparr>)
      in st\<lparr>ci_isClearingHistory := False\<rparr>)"

text \<open>
  The component with its requests in flight. \<open>sys_kbId\<close> is the prop,
  \<open>sys_historyAbortController\<close> the controller created by the current run of the effect,
  \<open>sys_nextController\<close> the next controller to be created. A pending request records the
  agent it was issued for and the controller whose signal it carries.
\<close>

datatype ci_pending =
    HistoryFetch string nat
  | ChatPost string nat string
  | HistoryDelete string

record ChatInterface_sys =
  sys_kbId :: string
  sys_state :: ChatInterface_state
  sys_historyAbortController :: nat
  sys_nextController :: nat
  sys_pending :: "ci_pending list"

fun controller_of :: "ci_pending \<Rightarrow> nat option" where
  "controller_of (HistoryFetch kbId c) = Some c"
| "controller_of (ChatPost kbId c aiPlaceholderMessageId) = Some c"
| "controller_of (HistoryDelete kbId) = None"

text \<open>
  \<open>controller.abort()\<close> rejects the request with \<open>AbortError\<close>; the handlers of the
  rejected promise run as microtasks, after the code that called \<open>abort\<close> and before any
  other event. \<open>abort_continuation\<close> is what they do to the state.
\<close>

fun abort_continuation :: "ChatInterface_state \<Rightarrow> ci_pending \<Rightarrow> ChatInterface_state" where
  "abort_continuation st (HistoryFetch kbId c) = loadHistory_settled kbId 0 (Rejected AbortError) st"
| "abort_continuation st (ChatPost kbId c aiPlaceholderMessageId) =
     handleSendMessage_settled aiPlaceholderMessageId (Rejected AbortError) st"
| "abort_continuation st (HistoryDelete kbId) = st"

definition aborted_by :: "nat list \<Rightarrow> ci_pending \<Rightarrow> bool" where
  "aborted_by cs p = (case controller_of p of Some c \<Rightarrow> c \<in> set cs | None \<Rightarrow> False)"

text \<open>
  One event handled to completion: the handler's synchronous part with state \<open>st'\<close>, the
  controllers \<open>cs\<close> it aborted and the requests \<open>new\<close> it issued, followed by the
  continuations of the aborted requests.
\<close>

definition after_handler ::
  "ChatInterface_sys \<Rightarrow> ChatInterface_state \<Rightarrow> nat list \<Rightarrow> ci_pending list \<Rightarrow> ChatInterface_sys" where
  "after_handler sys st' cs new =
     sys\<lparr>sys_state := foldl abort_continuation st' (filter (aborted_by cs) (sys_pending sys)),
         sys_pending := filter (\<lambda>p. \<not> aborted_by cs p) (sys_pending sys) @ new\<rparr>"

datatype ci_event =
    KbIdChanged string
  | UserTyped string
  | SendClicked nat
  | ClearClicked bool
  | HistorySettled nat nat "history_json outcome"
  | ChatSettled nat "chat_json outcome"
  | DeleteSettled nat nat "jobj outcome"

definition remove_nth :: "nat \<Rightarrow> 'a list \<Rightarrow> 'a list" where
  "remove_nth i xs = take i xs @ drop (Suc i) xs"

text \<open>
  The steps. \<open>KbIdChanged\<close> is a render with a new \<open>kbId\<close>: the cleanup of the previous run
  of the effect aborts its controller, then the effect runs again with a new controller.
  The \<open>Settled\<close> events deliver an outcome to the pending request at the given position
  (nothing happens when there is no such request); the numbers are \<open>Date.now()\<close>.
  The handlers run on their own guards only, whether or not the control that calls them
  is enabled, so that the steps allow every run of the component and more.
\<close>

fun ci_step :: "string \<Rightarrow> ChatInterface_sys \<Rightarrow> ci_event \<Rightarrow> ChatInterface_sys" where
  "ci_step backendUrl sys (KbIdChanged kbId) =
     (case loadHistory backendUrl kbId (sys_state sys) of
        (st', cs, rq) \<Rightarrow>
          after_handler
            (sys\<lparr>sys_kbId := kbId,
                 sys_historyAbortController := sys_nextController sys,
                 sys_nextController := Suc (sys_nextController sys)\<rparr>)
            st' (sys_historyAbortController sys # cs)
            (case rq of None \<Rightarrow> [] | Some r \<Rightarrow> [HistoryFetch kbId (sys_nextController sys)]))"
| "ci_step backendUrl sys (UserTyped s) =
     sys\<lparr>sys_state := (sys_state sys)\<lparr>ci_userInput := s\<rparr>\<rparr>"
| "ci_step backendUrl sys (SendClicked now) =
     (case handleSendMessage now (sys_nextController sys) backendUrl (sys_kbId sys) (sys_state sys) of
        (st', cs, None) \<Rightarrow> after_handler sys st' cs []
      | (st', cs, Some (r, aiPlaceholderMessageId)) \<Rightarrow>
          after_handler (sys\<lparr>sys_nextController := Suc (sys_nextController sys)\<rparr>) st' cs
            [ChatPost (sys_kbId sys) (sys_nextController sys) aiPlaceholderMessageId])"
| "ci_step backendUrl sys (ClearClicked userConfirmed) =
     (case handleClearHistory userConfirmed backendUrl (sys_kbId sys) (sys_state sys) of
        (st', rq) \<Rightarrow>
          after_handler sys st' []
            (case rq of None \<Rightarrow> [] | Some r \<Rightarrow> [HistoryDelete (sys_kbId sys)]))"
| "ci_step backendUrl sys (HistorySettled i now oc) =
     (if i < length (sys_pending sys)
      then (case sys_pending sys ! i of
              HistoryFetch kbId c \<Rightarrow>
                sys\<lparr>sys_state := loadHistory_settled kbId now oc (sys_state sys),
                    sys_pending := remove_nth i (sys_pending sys)\<rparr>
            | _ \<Rightarrow> sys)
      else sys)"
| "ci_step backendUrl sys (ChatSettled i oc) =
     (if i < length (sys_pending sys)
      then (case sys_pending sys ! i of
              ChatPost kbId c aiPlaceholderMessageId \<Rightarrow>
                sys\<lparr>sys_state := handleSendMessage_settled aiPlaceholderMessageId oc (sys_state sys),
                    sys_pending := remove_nth i (sys_pending sys)\<rparr>
            | _ \<Rightarrow> sys)
      else sys)"
| "ci_step backendUrl sys (DeleteSettled i now oc) =
     (if i < length (sys_pending sys)
      then (case sys_pending sys ! i of
              HistoryDelete kbId \<Rightarrow>
                sys\<lparr>sys_state := handleClearHistory_settled now oc (sys_state sys),
                    sys_pending := remove_nth i (sys_pending sys)\<rparr>
            | _ \<Rightarrow> sys)
      else sys)"

text \<open>The component after mounting with \<open>kbId\<close>, and after a list of events.\<close>

definition ci_mounted :: "string \<Rightarrow> string \<Rightarrow> ChatInterface_sys" where
  "ci_mounted backendUrl kbId =
     (case loadHistory backendUrl kbId
             \<lparr>ci_messages = [], ci_userInput = [], ci_isLoading = False,
              ci_isHistoryLoading = False, ci_historyError = None,
              ci_isClearingHistory = False, ci_clearHistoryError = None,
              ci_abortControllerRef = None\<rparr> of
        (st', cs, rq) \<Rightarrow>
          \<lparr>sys_kbId = kbId, sys_state = st', sys_historyAbortController = 0,
           sys_nextController = 1,
           sys_pending = (case rq of None \<Rightarrow> [] | Some r \<Rightarrow> [HistoryFetch kbId 0])\<rparr>)"

definition ci_run :: "string \<Rightarrow> string \<Rightarrow> ci_event list \<Rightarrow> ChatInterface_sys" where
  "ci_run backendUrl kbId evs = foldl (ci_step backendUrl) (ci_mounted backendUrl kbId) evs"

text \<open>
  What the handlers maintain about the requests in flight: the ref is set while a message
  is loading; a pending history fetch is the one of the current run of the effect; a
  pending chat request is the one the ref points to, there is at most one, and it was
  issued for the selected agent whenever one is selected.
\<close>

fun is_chat :: "ci_pending \<Rightarrow> bool" where
  "is_chat (ChatPost kbId c aiPlaceholderMessageId) = True"
| "is_chat (HistoryFetch kbId c) = False"
| "is_chat (HistoryDelete kbId) = False"

fun is_history :: "ci_pending \<Rightarrow> bool" where
  "is_history (HistoryFetch kbId c) = True"
| "is_history (ChatPost kbId c aiPlaceholderMessageId) = False"
| "is_history (HistoryDelete kbId) = False"

fun pending_ok :: "ChatInterface_sys \<Rightarrow> ci_pending \<Rightarrow> bool" where
  "pending_ok sys (HistoryFetch kbId c) =
     (kbId = sys_kbId sys \<and> c = sys_historyAbortController sys)"
| "pending_ok sys (ChatPost kbId c aiPlaceholderMessageId) =
     (ci_abortControllerRef (sys_state sys) = Some c \<and> (sys_kbId sys \<noteq> [] \<longrightarrow> kbId = sys_kbId sys))"
| "pending_ok sys (HistoryDelete kbId) = True"

definition ci_inv :: "ChatInterface_sys \<Rightarrow> bool" where
  "ci_inv sys =
     ((\<not> ci_isLoading (sys_state sys) \<longrightarrow> ci_abortControllerRef (sys_state sys) = None)
    \<and> (\<forall>p \<in> set (sys_pending sys). pending_ok sys p)
    \<and> length (filter is_chat (sys_pending sys)) \<le> 1)"

text \<open>The agent a pending history or chat request was issued for.\<close>

fun issued_for :: "ci_pending \<Rightarrow> string option" where
  "issued_for (HistoryFetch kbId c) = Some kbId"
| "issued_for (ChatPost kbId c aiPlaceholderMessageId) = Some kbId"
| "issued_for (HistoryDelete kbId) = None"

text \<open>Inputs for evaluating the model: a state with a conversation, and two responses.\<close>

definition ci_example :: ChatInterface_state where
  "ci_example =
     \<lparr>ci_messages =
        [\<lparr>msg_id = ''hist-kb1-0'', msg_sender = User, msg_text = ''hi'',
          msg_isLoading = None, msg_messageType = ''user''\<rparr>],
      ci_userInput = [], ci_isLoading = False, ci_isHistoryLoading = False,
      ci_historyError = Some ''stale'', ci_isClearingHistory = True,
      ci_clearHistoryError = None, ci_abortControllerRef = None\<rparr>"

definition response_204 :: "jobj response" where
  "response_204 = Response 204 (Inr []) (Inl (JSError ''SyntaxError'' ''Unexpected end of JSON input''))"


definition history_empty_200 :: "history_json outcome" where
  "history_empty_200 =
     Resolved (Response 200 (Inr []) (Inr \<lparr>message = Absent, detail = Absent, hj_history = Val []\<rparr>))"

definition chat_500 :: "chat_json outcome" where
  "chat_500 =
     Resolved (Response 500 (Inr ''boom'') (Inl (JSError ''SyntaxError'' ''Unexpected token b'')))"

text \<open>
  A session: the history of \<open>kb1\<close> loads (it is empty), the user types \<open>hi\<close> and sends it.
\<close>

definition ci_session :: ChatInterface_sys where
  "ci_session =
     ci_run ''http://b'' ''kb1'' [HistorySettled 0 1 history_empty_200, UserTyped ''hi'', SendClicked 2]"

text \<open>
  The same session continued: while the chat request is in flight the user clears the
  history and confirms, and the DELETE succeeds.
\<close>

definition ci_cleared_session :: ChatInterface_sys where
  "ci_cleared_session =
     foldl (ci_step ''http://b'') ci_session [ClearClicked True, DeleteSettled 1 3 (Resolved response_204)]"

definition history_kb2_200 :: "history_json outcome" where
  "history_kb2_200 =
     Resolved (Response 200 (Inr [])
       (Inr \<lparr>message = Absent, detail = Absent,
             hj_history = Val [\<lparr>hi_type = ''human'', hi_content = ''hello''\<rparr>]\<rparr>))"

text \<open>
  Another session: the history of \<open>kb1\<close> loads, the user clears it and confirms, and
  while the DELETE is in flight selects the agent \<open>kb2\<close>, whose history loads.
\<close>

definition ci_switched_session :: ChatInterface_sys where
  "ci_switched_session =
     ci_run ''http://b'' ''kb1''
       [HistorySettled 0 1 history_empty_200, ClearClicked True, KbIdChanged ''kb2'',
        HistorySettled 1 4 history_kb2_200]"

section \<open>KnowledgeBaseViewer, FileUpload and AddKbDrawer\<close>

record ContentItem =
  item_id :: string
  item_document :: string


















section \<open>HumanAgentDesk\<close>

text \<open>
  A conversation, with \<open>cv_last_message_time\<close> the value of
  \<open>new Date(conversation.last_message_timestamp).getTime()\<close>.
\<close>

record Conversation =
  cv_kb_id :: string
  cv_name :: "string field"
  cv_last_message_time :: nat


record DeskMessage =
  dm_sender :: string
  dm_text :: string
  dm_timestamp :: string



text \<open>
  The source holds two versions of the component. The second has the \<open>updateKb\<close> switch
  and its text; in the first, replies always go to \<open>human-chat\<close>, which is the second with
  \<open>updateKb\<close> false.
\<close>

record HumanAgentDesk_state =
  hd_conversations :: "Conversation list"
  hd_selectedConversationId :: "string option"
  hd_conversationHistory :: "DeskMessage list"
  hd_isLoadingConversations :: bool
  hd_isLoadingHistory :: bool
  hd_error :: "string option"
  hd_responseText :: string
  hd_updateKb :: bool
  hd_kbUpdateText :: string
  hd_isSending :: bool
  hd_showSuccess :: bool










definition handleSendResponse_refreshed :: "HumanAgentDesk_state \<Rightarrow> HumanAgentDesk_state" where
  "handleSendResponse_refreshed st =
     st\<lparr>hd_responseText := [], hd_updateKb := False, hd_kbUpdateText := [],
        hd_showSuccess := True, hd_isSending := False\<rparr>"

section \<open>The requests of the UI and the REST surface\<close>









section \<open>Error messages\<close>







section \<open>Properties of AgentConfig\<close>








section \<open>Properties of UrlScraper\<close>

text \<open>
  C6. Submitting the scrape form issues the POST to \<open>/agents/{kbId}/scrape-url\<close> only when
  \<open>isValidUrl url\<close> holds and \<open>maxPages\<close> is at least 1; in every other case no request
  is issued and the error message is set. \<open>isValidUrl s\<close> holds exactly when \<open>s\<close> parses
  as a URL and starts with \<open>http://\<close> or \<open>https://\<close>.
\<close>

theorem handleSubmit_validates:
  assumes "handleSubmit url_parses backendUrl kbId st = (st', out)"
  shows "(isValidUrl url_parses s \<longleftrightarrow>
            url_parses s \<and> (prefix ''http://'' s \<or> prefix ''https://'' s))
       \<and> (\<forall>rq payload. out = Some (rq, payload) \<longrightarrow>
             isValidUrl url_parses (us_url st) \<and> us_maxPages st \<ge> 1
           \<and> req_method rq = POST
           \<and> req_url rq = backendUrl @ ''/agents/'' @ kbId @ ''/scrape-url''
           \<and> payload = (us_url st, us_maxPages st))
       \<and> (\<not> (isValidUrl url_parses (us_url st) \<and> us_maxPages st \<ge> 1) \<longrightarrow>
             out = None
           \<and> us_error st' = Some ''Please enter a valid URL (starting with http:// or https://) and set max pages to at least 1.'')
       \<and> (out = None \<longrightarrow> us_error st' \<noteq> None)"
  using assms
  by (auto simp: handleSubmit_def isValidUrl_def scrape_url_request_def split: if_splits)

theorem handleSubmit_validates_witness:
  "handleSubmit (\<lambda>s. True) ''http://b'' ''kb1''
     \<lparr>us_url = ''ftp://x'', us_maxPages = 5, us_isSubmitting = False, us_error = None,
      us_successMessage = None, us_scrapeStatus = None, us_isPolling = False\<rparr>
   = (\<lparr>us_url = ''ftp://x'', us_maxPages = 5, us_isSubmitting = False,
       us_error = Some ''Please enter a valid URL (starting with http:// or https://) and set max pages to at least 1.'',
       us_successMessage = None, us_scrapeStatus = None, us_isPolling = False\<rparr>, None)
   \<and> \<not> isValidUrl (\<lambda>s. True) ''ftp://x''"
proof -
  let ?st = "\<lparr>us_url = ''ftp://x'', us_maxPages = 5, us_isSubmitting = False, us_error = None,
      us_successMessage = None, us_scrapeStatus = None, us_isPolling = False\<rparr>"
  have run: "handleSubmit (\<lambda>s. True) ''http://b'' ''kb1'' ?st
   = (\<lparr>us_url = ''ftp://x'', us_maxPages = 5, us_isSubmitting = False,
       us_error = Some ''Please enter a valid URL (starting with http:// or https://) and set max pages to at least 1.'',
       us_successMessage = None, us_scrapeStatus = None, us_isPolling = False\<rparr>, None)"
    by (simp add: handleSubmit_def isValidUrl_def)
  from handleSubmit_validates [OF run, of "''ftp://x''"]
  have "\<not> isValidUrl (\<lambda>s. True) ''ftp://x''" by simp
  with run show ?thesis by simp
qed

lemma fetchScrapeStatus_continue:
  "fst (snd (fetchScrapeStatus oc st)) = still_processing oc"
  by (auto simp: fetchScrapeStatus_def status_data_def still_processing_def Let_def
           split: outcome.splits sum.splits)

lemma fetchScrapeStatus_processing:
  assumes "still_processing oc"
  shows "us_isPolling (fst (fetchScrapeStatus oc st)) = us_isPolling st"
    and "snd (snd (fetchScrapeStatus oc st)) = []"
  using assms
  by (auto simp: fetchScrapeStatus_def status_data_def still_processing_def Let_def
           split: outcome.splits sum.splits)

lemma fetchScrapeStatus_stops:
  assumes "\<not> still_processing oc"
  shows "\<not> us_isPolling (fst (fetchScrapeStatus oc st))"
    and "PollStatus \<notin> snd ` set (snd (snd (fetchScrapeStatus oc st)))"
  using assms
  by (auto simp: fetchScrapeStatus_def status_data_def still_processing_def Let_def
           split: outcome.splits sum.splits)

lemma pollStatus_all_processing:
  "\<forall>oc \<in> set ocs. still_processing oc \<Longrightarrow>
     fst (pollStatus backendUrl kbId True ocs st)
       = concat (replicate (length ocs) (poll_round backendUrl kbId))
         @ [Fetch (scrape_status_request backendUrl kbId)]
   \<and> us_isPolling (snd (pollStatus backendUrl kbId True ocs st)) = us_isPolling st"
proof (induction ocs arbitrary: st)
  case Nil
  then show ?case by simp
next
  case (Cons oc ocs)
  obtain st' c ts where f: "fetchScrapeStatus oc st = (st', c, ts)"
    by (cases "fetchScrapeStatus oc st") auto
  from Cons.prems have p: "still_processing oc" by simp
  from f p fetchScrapeStatus_continue [of oc st] have c: "c" by simp
  from f p fetchScrapeStatus_processing [of oc st] have ts: "ts = []"
    and pol: "us_isPolling st' = us_isPolling st" by simp_all
  from Cons.prems have "\<forall>oc \<in> set ocs. still_processing oc" by simp
  from Cons.IH [OF this, of st'] f c ts pol show ?case
    by (simp add: poll_round_def split_beta)
qed

lemma pollStatus_stop:
  assumes "\<forall>oc \<in> set ocs. still_processing oc" and "\<not> still_processing oc'"
  shows "\<exists>ts. fst (pollStatus backendUrl kbId True (ocs @ oc' # rest) st)
            = concat (replicate (length ocs) (poll_round backendUrl kbId))
              @ Fetch (scrape_status_request backendUrl kbId) # Settled
                # map (\<lambda>(ms, f). SetTimeout ms f) ts
          \<and> PollStatus \<notin> snd ` set ts
          \<and> \<not> us_isPolling (snd (pollStatus backendUrl kbId True (ocs @ oc' # rest) st))"
  using assms(1)
proof (induction ocs arbitrary: st)
  case Nil
  obtain st' c ts where f: "fetchScrapeStatus oc' st = (st', c, ts)"
    by (cases "fetchScrapeStatus oc' st") auto
  from f assms(2) fetchScrapeStatus_continue [of oc' st] have c: "\<not> c" by simp
  from f assms(2) fetchScrapeStatus_stops [of oc' st]
  have "\<not> us_isPolling st'" "PollStatus \<notin> snd ` set ts" by simp_all
  with f c show ?case by (intro exI [of _ ts]) simp
next
  case (Cons oc ocs)
  obtain st' c ts where f: "fetchScrapeStatus oc st = (st', c, ts)"
    by (cases "fetchScrapeStatus oc st") auto
  from Cons.prems have p: "still_processing oc" by simp
  from f p fetchScrapeStatus_continue [of oc st] have c: "c" by simp
  from f p fetchScrapeStatus_processing(2) [of oc st] have ts: "ts = []" by simp
  from Cons.prems have "\<forall>oc \<in> set ocs. still_processing oc" by simp
  from Cons.IH [OF this, of st'] obtain ts' where
    "fst (pollStatus backendUrl kbId True (ocs @ oc' # rest) st')
       = concat (replicate (length ocs) (poll_round backendUrl kbId))
         @ Fetch (scrape_status_request backendUrl kbId) # Settled
           # map (\<lambda>(ms, f). SetTimeout ms f) ts'"
    "PollStatus \<notin> snd ` set ts'"
    "\<not> us_isPolling (snd (pollStatus backendUrl kbId True (ocs @ oc' # rest) st'))"
    by blast
  with f c ts show ?case
    by (intro exI [of _ ts']) (simp add: poll_round_def split_beta)
qed

text \<open>
  C1. Within one run of the polling effect of UrlScraper (fixed \<open>backendUrl\<close> and \<open>kbId\<close>):
  \<open>fetchScrapeStatus\<close> returns true exactly when the status request succeeded with the
  status \<open>processing\<close>, and in every other case (another status, a non-success response,
  a failed request or body) it sets \<open>isPolling\<close> to false. While the outcomes are
  \<open>processing\<close> the trace is a repetition of request, resolution, timeout of 2000 ms, so
  that a request is issued only after the previous one has resolved and the delay is the
  same in every round, for any number of rounds; the first outcome that is not
  \<open>processing\<close> ends the trace with no further poll scheduled and \<open>isPolling\<close> false.
\<close>

theorem pollStatus_fixed_interval:
  "(fst (snd (fetchScrapeStatus oc st)) \<longleftrightarrow> still_processing oc)
 \<and> (\<not> still_processing oc \<longrightarrow> \<not> us_isPolling (fst (fetchScrapeStatus oc st)))
 \<and> ((\<forall>oc \<in> set ocs. still_processing oc) \<longrightarrow>
       fst (pollStatus backendUrl kbId True ocs st)
         = concat (replicate (length ocs) (poll_round backendUrl kbId))
           @ [Fetch (scrape_status_request backendUrl kbId)]
     \<and> us_isPolling (snd (pollStatus backendUrl kbId True ocs st)) = us_isPolling st)
 \<and> ((\<forall>oc \<in> set ocs. still_processing oc) \<and> \<not> still_processing oc' \<longrightarrow>
       (\<exists>ts. fst (pollStatus backendUrl kbId True (ocs @ oc' # rest) st)
                = concat (replicate (length ocs) (poll_round backendUrl kbId))
                  @ Fetch (scrape_status_request backendUrl kbId) # Settled
                    # map (\<lambda>(ms, f). SetTimeout ms f) ts
             \<and> PollStatus \<notin> snd ` set ts
             \<and> \<not> us_isPolling (snd (pollStatus backendUrl kbId True (ocs @ oc' # rest) st))))"
proof (intro conjI impI)
  show "fst (snd (fetchScrapeStatus oc st)) \<longleftrightarrow> still_processing oc"
    by (rule fetchScrapeStatus_continue)
next
  assume "\<not> still_processing oc"
  then show "\<not> us_isPolling (fst (fetchScrapeStatus oc st))"
    by (rule fetchScrapeStatus_stops)
next
  assume "\<forall>oc \<in> set ocs. still_processing oc"
  from pollStatus_all_processing [OF this]
  show "fst (pollStatus backendUrl kbId True ocs st)
         = concat (replicate (length ocs) (poll_round backendUrl kbId))
           @ [Fetch (scrape_status_request backendUrl kbId)]"
    and "us_isPolling (snd (pollStatus backendUrl kbId True ocs st)) = us_isPolling st"
    by simp_all
next
  assume "(\<forall>oc \<in> set ocs. still_processing oc) \<and> \<not> still_processing oc'"
  then show "\<exists>ts. fst (pollStatus backendUrl kbId True (ocs @ oc' # rest) st)
                = concat (replicate (length ocs) (poll_round backendUrl kbId))
                  @ Fetch (scrape_status_request backendUrl kbId) # Settled
                    # map (\<lambda>(ms, f). SetTimeout ms f) ts
             \<and> PollStatus \<notin> snd ` set ts
             \<and> \<not> us_isPolling (snd (pollStatus backendUrl kbId True (ocs @ oc' # rest) st))"
    using pollStatus_stop by blast
qed

theorem pollStatus_fixed_interval_witness:
  "still_processing (Resolved (Response 200 (Inr []) (Inr
      \<lparr>message = Absent, detail = Absent, sj_status = Val ''processing'',
       sj_chars_added = Absent, sj_submitted_url = Absent\<rparr>)))
 \<and> \<not> still_processing (Rejected (JSError ''TypeError'' ''Failed to fetch''))
 \<and> fst (pollStatus ''http://b'' ''kb1'' True
      [Resolved (Response 200 (Inr []) (Inr
         \<lparr>message = Absent, detail = Absent, sj_status = Val ''processing'',
          sj_chars_added = Absent, sj_submitted_url = Absent\<rparr>)),
       Rejected (JSError ''TypeError'' ''Failed to fetch'')]
      \<lparr>us_url = [], us_maxPages = 1, us_isSubmitting = False, us_error = None,
       us_successMessage = None, us_scrapeStatus = None, us_isPolling = True\<rparr>)
   = [Fetch (scrape_status_request ''http://b'' ''kb1''), Settled, SetTimeout 2000 PollStatus,
      Fetch (scrape_status_request ''http://b'' ''kb1''), Settled]
 \<and> \<not> us_isPolling (snd (pollStatus ''http://b'' ''kb1'' True
      ([Resolved (Response 200 (Inr []) (Inr
         \<lparr>message = Absent, detail = Absent, sj_status = Val ''processing'',
          sj_chars_added = Absent, sj_submitted_url = Absent\<rparr>))]
       @ Rejected (JSError ''TypeError'' ''Failed to fetch'') # [])
      \<lparr>us_url = [], us_maxPages = 1, us_isSubmitting = False, us_error = None,
       us_successMessage = None, us_scrapeStatus = None, us_isPolling = True\<rparr>))"
proof -
  let ?p = "Resolved (Response 200 (Inr []) (Inr
      \<lparr>message = Absent, detail = Absent, sj_status = Val ''processing'',
       sj_chars_added = Absent, sj_submitted_url = Absent\<rparr>))"
  let ?r = "Rejected (JSError ''TypeError'' ''Failed to fetch'') :: scrape_json outcome"
  let ?st = "\<lparr>us_url = [], us_maxPages = 1, us_isSubmitting = False, us_error = None,
       us_successMessage = None, us_scrapeStatus = None, us_isPolling = True\<rparr>"
  have p: "still_processing ?p" by (simp add: still_processing_def ok_def)
  have r: "\<not> still_processing ?r" by (simp add: still_processing_def)
  have hyp: "(\<forall>oc \<in> set [?p]. still_processing oc) \<and> \<not> still_processing ?r"
    using p r by simp
  from pollStatus_fixed_interval [where oc = ?r and st = ?st and ocs = "[?p]"
      and backendUrl = "''http://b''" and kbId = "''kb1''" and oc' = ?r and rest = "[]"] hyp
  have stop: "\<not> us_isPolling (snd (pollStatus ''http://b'' ''kb1'' True ([?p] @ ?r # []) ?st))"
    by blast
  have trace: "fst (pollStatus ''http://b'' ''kb1'' True [?p, ?r] ?st)
   = [Fetch (scrape_status_request ''http://b'' ''kb1''), Settled, SetTimeout 2000 PollStatus,
      Fetch (scrape_status_request ''http://b'' ''kb1''), Settled]"
    by (simp add: fetchScrapeStatus_def status_data_def ok_def Let_def)
  from p r stop trace show ?thesis by blast
qed

section \<open>Properties of JSONUpload\<close>

lemma trim_Nil: "trim [] = []"
  by (simp add: trim_def)

lemma ju_inv_mounted: "ju_inv JSON_parse (ju_mounted backendUrl kbId)"
  by (simp add: ju_inv_def ju_mounted_def fetchExistingJson_def trim_Nil)

lemma ju_inv_step:
  assumes "ju_inv JSON_parse st"
  shows "ju_inv JSON_parse (ju_step JSON_parse backendUrl kbId st ev)"
proof (cases ev)
  case (JsonChanged data)
  then show ?thesis
    by (simp add: ju_inv_def handleJsonChange_def Let_def split: option.splits)
next
  case UploadClicked
  with assms show ?thesis
    by (auto simp: ju_inv_def handleUpload_def upload_finally_def upload_catch_def Let_def
             split: option.splits)
next
  case (UploadSettled uploadStatus oc)
  with assms show ?thesis
    by (auto simp: ju_inv_def handleUpload_settled_def fetchExistingJson_def upload_finally_def
                   upload_catch_def Let_def trim_Nil
             split: outcome.splits sum.splits)
next
  case RefreshClicked
  with assms show ?thesis
    by (simp add: ju_inv_def fetchExistingJson_def)
next
  case (ExistingSettled oc)
  with assms show ?thesis
    by (auto simp: ju_inv_def fetchExistingJson_settled_def Let_def
             split: outcome.splits sum.splits)
qed

lemma ju_inv_run: "ju_inv JSON_parse (ju_run JSON_parse backendUrl kbId evs)"
  unfolding ju_run_def
  by (induction evs rule: rev_induct) (simp_all add: ju_inv_mounted ju_inv_step)

text \<open>
  C5. In every state JSONUpload can reach, the upload button is disabled, and
  \<open>handleUpload\<close> returns without issuing a request, whenever the trimmed input is empty,
  the input does not parse as JSON, or an upload is in progress. An empty textarea
  disables the button in any state.
\<close>

theorem upload_disabled_when_invalid:
  assumes "st = ju_run JSON_parse backendUrl kbId evs"
  shows "(trim (ju_jsonData st) = [] \<or> JSON_parse (ju_jsonData st) \<noteq> None
            \<or> ju_uploadStatus st = Uploading
          \<longrightarrow> upload_disabled st \<and> snd (handleUpload JSON_parse backendUrl kbId st) = None)
       \<and> (ju_jsonData st = [] \<longrightarrow> upload_disabled st)"
proof -
  from assms have inv: "ju_inv JSON_parse st" by (simp add: ju_inv_run)
  have guard: "upload_disabled st \<Longrightarrow> snd (handleUpload JSON_parse backendUrl kbId st) = None"
    by (simp add: upload_disabled_def handleUpload_def)
  have "upload_disabled st"
    if "trim (ju_jsonData st) = [] \<or> JSON_parse (ju_jsonData st) \<noteq> None
          \<or> ju_uploadStatus st = Uploading"
    using that inv by (auto simp: upload_disabled_def ju_inv_def)
  moreover have "ju_jsonData st = [] \<longrightarrow> upload_disabled st"
    by (simp add: upload_disabled_def trim_Nil)
  ultimately show ?thesis using guard by blast
qed

theorem upload_disabled_when_invalid_witness:
  "JSON_parse_example ''{oops'' \<noteq> None
 \<and> upload_disabled (ju_run JSON_parse_example ''http://b'' ''kb1'' [JsonChanged ''{oops''])
 \<and> snd (handleUpload JSON_parse_example ''http://b'' ''kb1''
          (ju_run JSON_parse_example ''http://b'' ''kb1'' [JsonChanged ''{oops''])) = None"
proof -
  let ?st = "ju_run JSON_parse_example ''http://b'' ''kb1'' [JsonChanged ''{oops'']"
  have data: "ju_jsonData ?st = ''{oops''"
    by (simp add: ju_run_def ju_mounted_def fetchExistingJson_def handleJsonChange_def
                  JSON_parse_example_def Let_def)
  have bad: "JSON_parse_example ''{oops'' \<noteq> None"
    by (simp add: JSON_parse_example_def)
  from upload_disabled_when_invalid [of ?st JSON_parse_example "''http://b''" "''kb1''"
         "[JsonChanged ''{oops'']"] data bad
  show ?thesis by simp
qed

section \<open>Mutations and the lists they affect\<close>









section \<open>Properties of ChatInterface\<close>

lemma abort_history:
  "loadHistory_settled kbId now (Rejected AbortError) st = st\<lparr>ci_isHistoryLoading := False\<rparr>"
  by (simp add: loadHistory_settled_def loadHistory_try_def AbortError_def)

lemma abort_chat:
  "handleSendMessage_settled pid (Rejected AbortError) st
     = st\<lparr>ci_isLoading := False, ci_abortControllerRef := None\<rparr>"
  by (simp add: handleSendMessage_settled_def handleSendMessage_try_def AbortError_def)

lemma abort_continuation_eq:
  "abort_continuation st p =
     (if is_history p then st\<lparr>ci_isHistoryLoading := False\<rparr>
      else if is_chat p then st\<lparr>ci_isLoading := False, ci_abortControllerRef := None\<rparr>
      else st)"
  by (cases p) (simp_all add: abort_history abort_chat)

lemma history_not_chat: "is_history p \<Longrightarrow> \<not> is_chat p"
  by (cases p) simp_all

lemma foldl_abort_messages:
  "ci_messages (foldl abort_continuation st ps) = ci_messages st"
  by (induction ps arbitrary: st) (simp_all add: abort_continuation_eq)

lemma foldl_abort_ref:
  "ci_abortControllerRef (foldl abort_continuation st ps)
     = (if \<exists>p \<in> set ps. is_chat p then None else ci_abortControllerRef st)"
  by (induction ps arbitrary: st) (auto simp: abort_continuation_eq dest: history_not_chat)

lemma foldl_abort_isLoading:
  "ci_isLoading (foldl abort_continuation st ps)
     = (if \<exists>p \<in> set ps. is_chat p then False else ci_isLoading st)"
  by (induction ps arbitrary: st) (auto simp: abort_continuation_eq dest: history_not_chat)

lemma set_remove_nth: "set (remove_nth i xs) \<subseteq> set xs"
  unfolding remove_nth_def
  by (metis Un_least set_append set_drop_subset set_take_subset)

lemma filter_remove_nth_le:
  "length (filter P (remove_nth i xs)) \<le> length (filter P xs)"
proof -
  have "xs = take i xs @ drop i xs" by simp
  then have "length (filter P xs) = length (filter P (take i xs)) + length (filter P (drop i xs))"
    by (metis filter_append length_append)
  moreover have "length (filter P (drop (Suc i) xs)) \<le> length (filter P (drop i xs))"
    by (cases "i < length xs") (simp_all add: Cons_nth_drop_Suc [symmetric])
  ultimately show ?thesis by (simp add: remove_nth_def)
qed

lemma filter_remove_nth_hit:
  assumes "i < length xs" and "P (xs ! i)"
  shows "Suc (length (filter P (remove_nth i xs))) = length (filter P xs)"
proof -
  from assms(1) have "xs = take i xs @ xs ! i # drop (Suc i) xs"
    by (simp add: id_take_nth_drop)
  then have "filter P xs = filter P (take i xs) @ filter P (xs ! i # drop (Suc i) xs)"
    by (metis filter_append)
  with assms(2) show ?thesis by (simp add: remove_nth_def)
qed

lemma chat_count_filter:
  "length (filter is_chat (filter Q ps)) \<le> length (filter is_chat ps)"
  by (induction ps) auto

lemma no_chat_count:
  "(\<forall>p \<in> set ps. \<not> is_chat p) \<Longrightarrow> length (filter is_chat ps) = 0"
  by (induction ps) auto

lemma pending_ok_chat_ref:
  assumes "\<forall>p \<in> set (sys_pending sys). pending_ok sys p"
      and "p \<in> set (sys_pending sys)" and "is_chat p"
  shows "\<exists>c. controller_of p = Some c \<and> ci_abortControllerRef (sys_state sys) = Some c"
  using assms by (cases p) auto

lemma pending_ok_history_ctrl:
  assumes "\<forall>p \<in> set (sys_pending sys). pending_ok sys p"
      and "p \<in> set (sys_pending sys)" and "is_history p"
  shows "controller_of p = Some (sys_historyAbortController sys)"
  using assms by (cases p) auto

lemma ci_inv_mounted: "ci_inv (ci_mounted backendUrl kbId)"
  by (simp add: ci_inv_def ci_mounted_def loadHistory_def)

lemma ci_inv_KbIdChanged:
  assumes inv: "ci_inv sys"
  shows "ci_inv (ci_step backendUrl sys (KbIdChanged kbId))"
proof -
  let ?st = "sys_state sys" and ?h = "sys_historyAbortController sys"
  let ?ps = "sys_pending sys"
  define sys' where "sys' = ci_step backendUrl sys (KbIdChanged kbId)"
  from inv have ref: "\<not> ci_isLoading ?st \<longrightarrow> ci_abortControllerRef ?st = None"
    and ok: "\<forall>p \<in> set ?ps. pending_ok sys p"
    and one: "length (filter is_chat ?ps) \<le> 1"
    by (simp_all add: ci_inv_def)
  show ?thesis
  proof (cases "kbId = []")
    case True
    let ?ab = "filter (aborted_by [?h]) ?ps"
    from True have st': "sys_state sys' = foldl abort_continuation ?st ?ab"
      and ps': "sys_pending sys' = filter (\<lambda>p. \<not> aborted_by [?h] p) ?ps"
      and kb': "sys_kbId sys' = []"
      by (simp_all add: sys'_def loadHistory_def after_handler_def)
    have chat_ab: "ci_abortControllerRef ?st = Some ?h" if "p \<in> set ?ab" "is_chat p" for p
      using that pending_ok_chat_ref [OF ok, of p] by (auto simp: aborted_by_def)
    have 1: "\<not> ci_isLoading (sys_state sys') \<longrightarrow> ci_abortControllerRef (sys_state sys') = None"
      using ref by (auto simp: st' foldl_abort_ref foldl_abort_isLoading)
    have 2: "pending_ok sys' p" if "p \<in> set (sys_pending sys')" for p
    proof (cases p)
      case (HistoryFetch k c)
      with that ok pending_ok_history_ctrl [OF ok, of p] show ?thesis
        by (auto simp: ps' aborted_by_def)
    next
      case (ChatPost k c pid)
      with that ok have r: "ci_abortControllerRef ?st = Some c" and ne: "c \<noteq> ?h"
        by (auto simp: ps' aborted_by_def)
      from r ne chat_ab have "\<not> (\<exists>q \<in> set ?ab. is_chat q)" by auto
      with r ChatPost show ?thesis by (simp add: st' kb' foldl_abort_ref)
    next
      case (HistoryDelete k)
      then show ?thesis by simp
    qed
    have 3: "length (filter is_chat (sys_pending sys')) \<le> 1"
      using one chat_count_filter [of "\<lambda>p. \<not> aborted_by [?h] p" ?ps] by (simp add: ps')
    from 1 2 3 show ?thesis unfolding sys'_def [symmetric] by (simp add: ci_inv_def)
  next
    case False
    let ?cs = "?h # (case ci_abortControllerRef ?st of Some c \<Rightarrow> [c] | None \<Rightarrow> [])"
    let ?st1 = "?st\<lparr>ci_isHistoryLoading := True, ci_historyError := None, ci_messages := [],
                    ci_userInput := [], ci_isLoading := False, ci_abortControllerRef := None\<rparr>"
    let ?ab = "filter (aborted_by ?cs) ?ps"
    from False have st': "sys_state sys' = foldl abort_continuation ?st1 ?ab"
      and ps': "sys_pending sys' = filter (\<lambda>p. \<not> aborted_by ?cs p) ?ps
                                     @ [HistoryFetch kbId (sys_nextController sys)]"
      and kb': "sys_kbId sys' = kbId"
      and h': "sys_historyAbortController sys' = sys_nextController sys"
      by (simp_all add: sys'_def loadHistory_def after_handler_def)
    have 1: "ci_abortControllerRef (sys_state sys') = None"
      by (simp add: st' foldl_abort_ref)
    have gone: "aborted_by ?cs p" if "p \<in> set ?ps" "is_chat p \<or> is_history p" for p
      using that pending_ok_chat_ref [OF ok, of p] pending_ok_history_ctrl [OF ok, of p]
      by (auto simp: aborted_by_def)
    have 2: "pending_ok sys' p" if "p \<in> set (sys_pending sys')" for p
    proof (cases p)
      case (HistoryFetch k c)
      with that gone [of p] show ?thesis by (auto simp: ps' kb' h')
    next
      case (ChatPost k c pid)
      with that gone [of p] show ?thesis by (auto simp: ps')
    next
      case (HistoryDelete k)
      then show ?thesis by simp
    qed
    have 3: "length (filter is_chat (sys_pending sys')) \<le> 1"
      using one chat_count_filter [of "\<lambda>p. \<not> aborted_by ?cs p" ?ps] by (simp add: ps')
    from 1 2 3 show ?thesis unfolding sys'_def [symmetric] by (simp add: ci_inv_def)
  qed
qed

lemma aborted_by_Nil [simp]: "\<not> aborted_by [] p"
  by (simp add: aborted_by_def split: option.splits)

lemma after_handler_no_abort:
  "after_handler sys st' [] new = sys\<lparr>sys_state := st', sys_pending := sys_pending sys @ new\<rparr>"
  by (simp add: after_handler_def)

lemma pending_ok_cong:
  assumes "pending_ok sys p"
      and "sys_kbId sys' = sys_kbId sys"
      and "sys_historyAbortController sys' = sys_historyAbortController sys"
      and "ci_abortControllerRef (sys_state sys') = ci_abortControllerRef (sys_state sys)"
  shows "pending_ok sys' p"
  using assms by (cases p) simp_all

lemma ci_inv_SendClicked:
  assumes inv: "ci_inv sys"
  shows "ci_inv (ci_step backendUrl sys (SendClicked now))"
proof -
  let ?st = "sys_state sys" and ?ps = "sys_pending sys"
  define sys' where "sys' = ci_step backendUrl sys (SendClicked now)"
  from inv have ref: "\<not> ci_isLoading ?st \<longrightarrow> ci_abortControllerRef ?st = None"
    and ok: "\<forall>p \<in> set ?ps. pending_ok sys p"
    and one: "length (filter is_chat ?ps) \<le> 1"
    by (simp_all add: ci_inv_def)
  show ?thesis
  proof (cases "trim (ci_userInput ?st) = [] \<or> ci_isLoading ?st")
    case True
    then have "sys' = sys"
      by (simp add: sys'_def handleSendMessage_def after_handler_no_abort)
    with inv show ?thesis by (simp add: sys'_def)
  next
    case False
    with ref have none: "ci_abortControllerRef ?st = None" by simp
    have nochat: "\<not> is_chat p" if "p \<in> set ?ps" for p
      using that pending_ok_chat_ref [OF ok, of p] none by auto
    from False none have ps': "sys_pending sys'
        = ?ps @ [ChatPost (sys_kbId sys) (sys_nextController sys) (''ai-loading-'' @ string_of_nat now)]"
      and r': "ci_abortControllerRef (sys_state sys') = Some (sys_nextController sys)"
      and l': "ci_isLoading (sys_state sys')"
      and kb': "sys_kbId sys' = sys_kbId sys"
      and h': "sys_historyAbortController sys' = sys_historyAbortController sys"
      by (simp_all add: sys'_def handleSendMessage_def after_handler_no_abort Let_def)
    have 2: "pending_ok sys' p" if "p \<in> set (sys_pending sys')" for p
    proof (cases p)
      case (HistoryFetch k c)
      with that ok show ?thesis by (auto simp: ps' kb' h')
    next
      case (ChatPost k c pid)
      with that nochat [of p] show ?thesis by (auto simp: ps' r' kb')
    next
      case (HistoryDelete k)
      then show ?thesis by simp
    qed
    have 3: "length (filter is_chat (sys_pending sys')) \<le> 1"
      using no_chat_count [of ?ps] nochat by (simp add: ps')
    from l' 2 3 show ?thesis unfolding sys'_def [symmetric] by (simp add: ci_inv_def)
  qed
qed

lemma ci_inv_ClearClicked:
  assumes inv: "ci_inv sys"
  shows "ci_inv (ci_step backendUrl sys (ClearClicked userConfirmed))"
proof -
  define sys' where "sys' = ci_step backendUrl sys (ClearClicked userConfirmed)"
  have ps': "sys_pending sys' = sys_pending sys \<or>
             sys_pending sys' = sys_pending sys @ [HistoryDelete (sys_kbId sys)]"
    and r': "ci_abortControllerRef (sys_state sys') = ci_abortControllerRef (sys_state sys)"
    and l': "ci_isLoading (sys_state sys') = ci_isLoading (sys_state sys)"
    and kb': "sys_kbId sys' = sys_kbId sys"
    and h': "sys_historyAbortController sys' = sys_historyAbortController sys"
    by (simp_all add: sys'_def handleClearHistory_def after_handler_no_abort Let_def)
  from inv ps' have 2: "\<forall>p \<in> set (sys_pending sys'). pending_ok sys' p"
    using pending_ok_cong [OF _ kb' h' r'] by (auto simp: ci_inv_def)
  from inv ps' have 3: "length (filter is_chat (sys_pending sys')) \<le> 1"
    by (auto simp: ci_inv_def)
  from inv r' l' 2 3 show ?thesis unfolding sys'_def [symmetric] by (simp add: ci_inv_def)
qed

lemma ci_inv_settled_other:
  assumes inv: "ci_inv sys"
      and r': "ci_abortControllerRef (sys_state sys') = ci_abortControllerRef (sys_state sys)"
      and l': "ci_isLoading (sys_state sys') = ci_isLoading (sys_state sys)"
      and kb': "sys_kbId sys' = sys_kbId sys"
      and h': "sys_historyAbortController sys' = sys_historyAbortController sys"
      and ps': "sys_pending sys' = remove_nth i (sys_pending sys)"
  shows "ci_inv sys'"
proof -
  from inv have "\<forall>p \<in> set (sys_pending sys'). pending_ok sys' p"
    using pending_ok_cong [OF _ kb' h' r'] set_remove_nth [of i "sys_pending sys"]
    by (auto simp: ci_inv_def ps')
  moreover from inv have "length (filter is_chat (sys_pending sys')) \<le> 1"
    using filter_remove_nth_le [of is_chat i "sys_pending sys"] by (simp add: ci_inv_def ps')
  ultimately show ?thesis using inv r' l' by (simp add: ci_inv_def)
qed

lemma ci_inv_HistorySettled:
  assumes inv: "ci_inv sys"
  shows "ci_inv (ci_step backendUrl sys (HistorySettled i now oc))"
proof (cases "i < length (sys_pending sys) \<and> is_history (sys_pending sys ! i)")
  case False
  then have "ci_step backendUrl sys (HistorySettled i now oc) = sys"
    by (cases "sys_pending sys ! i") auto
  with inv show ?thesis by simp
next
  case True
  then obtain k c where p: "sys_pending sys ! i = HistoryFetch k c"
    by (cases "sys_pending sys ! i") auto
  show ?thesis
  proof (rule ci_inv_settled_other [OF inv, where i = i])
    show "ci_abortControllerRef (sys_state (ci_step backendUrl sys (HistorySettled i now oc)))
            = ci_abortControllerRef (sys_state sys)"
      using True p
      by (simp add: loadHistory_settled_def Let_def split: sum.splits)
    show "ci_isLoading (sys_state (ci_step backendUrl sys (HistorySettled i now oc)))
            = ci_isLoading (sys_state sys)"
      using True p
      by (simp add: loadHistory_settled_def Let_def split: sum.splits)
  qed (use True p in simp_all)
qed

lemma ci_inv_DeleteSettled:
  assumes inv: "ci_inv sys"
  shows "ci_inv (ci_step backendUrl sys (DeleteSettled i now oc))"
proof (cases "i < length (sys_pending sys) \<and> (\<exists>k. sys_pending sys ! i = HistoryDelete k)")
  case False
  then have "ci_step backendUrl sys (DeleteSettled i now oc) = sys"
    by (cases "sys_pending sys ! i") auto
  with inv show ?thesis by simp
next
  case True
  then obtain k where p: "sys_pending sys ! i = HistoryDelete k" by blast
  show ?thesis
  proof (rule ci_inv_settled_other [OF inv, where i = i])
    show "ci_abortControllerRef (sys_state (ci_step backendUrl sys (DeleteSettled i now oc)))
            = ci_abortControllerRef (sys_state sys)"
      using True p
      by (simp add: handleClearHistory_settled_def Let_def split: option.splits)
    show "ci_isLoading (sys_state (ci_step backendUrl sys (DeleteSettled i now oc)))
            = ci_isLoading (sys_state sys)"
      using True p
      by (simp add: handleClearHistory_settled_def Let_def split: option.splits)
  qed (use True p in simp_all)
qed

lemma ci_inv_ChatSettled:
  assumes inv: "ci_inv sys"
  shows "ci_inv (ci_step backendUrl sys (ChatSettled i oc))"
proof (cases "i < length (sys_pending sys) \<and> is_chat (sys_pending sys ! i)")
  case False
  then have "ci_step backendUrl sys (ChatSettled i oc) = sys"
    by (cases "sys_pending sys ! i") auto
  with inv show ?thesis by simp
next
  case True
  then obtain k c pid where p: "sys_pending sys ! i = ChatPost k c pid"
    by (cases "sys_pending sys ! i") auto
  define sys' where "sys' = ci_step backendUrl sys (ChatSettled i oc)"
  from True p have ps': "sys_pending sys' = remove_nth i (sys_pending sys)"
    and r': "ci_abortControllerRef (sys_state sys') = None"
    by (simp_all add: sys'_def handleSendMessage_settled_def Let_def split: sum.splits)
  from inv have one: "length (filter is_chat (sys_pending sys)) \<le> 1"
    by (simp add: ci_inv_def)
  from True filter_remove_nth_hit [of i "sys_pending sys" is_chat] one
  have "length (filter is_chat (remove_nth i (sys_pending sys))) = 0" by linarith
  then have nochat: "\<forall>p \<in> set (sys_pending sys'). \<not> is_chat p"
    by (simp add: ps' filter_empty_conv)
  have 2: "pending_ok sys' q" if "q \<in> set (sys_pending sys')" for q
  proof (cases q)
    case (HistoryFetch k' c')
    from that set_remove_nth [of i "sys_pending sys"] have "q \<in> set (sys_pending sys)"
      by (auto simp: ps')
    with inv have "pending_ok sys q" by (simp add: ci_inv_def)
    with HistoryFetch True p show ?thesis by (simp add: sys'_def)
  next
    case (ChatPost k' c' pid')
    with that nochat show ?thesis by auto
  next
    case (HistoryDelete k')
    then show ?thesis by simp
  qed
  from nochat have 3: "length (filter is_chat (sys_pending sys')) \<le> 1"
    by (simp add: no_chat_count)
  from r' 2 3 show ?thesis unfolding sys'_def [symmetric] by (simp add: ci_inv_def)
qed

lemma ci_inv_step:
  assumes "ci_inv sys"
  shows "ci_inv (ci_step backendUrl sys ev)"
proof (cases ev)
  case (KbIdChanged kbId)
  from ci_inv_KbIdChanged [OF assms] show ?thesis unfolding KbIdChanged .
next
  case (UserTyped s)
  from assms have "\<forall>p \<in> set (sys_pending sys). pending_ok (ci_step backendUrl sys (UserTyped s)) p"
    using pending_ok_cong [of sys _ "ci_step backendUrl sys (UserTyped s)"]
    by (auto simp: ci_inv_def)
  with assms UserTyped show ?thesis by (simp add: ci_inv_def)
next
  case (SendClicked now)
  from ci_inv_SendClicked [OF assms] show ?thesis unfolding SendClicked .
next
  case (ClearClicked userConfirmed)
  from ci_inv_ClearClicked [OF assms] show ?thesis unfolding ClearClicked .
next
  case (HistorySettled i now oc)
  from ci_inv_HistorySettled [OF assms] show ?thesis unfolding HistorySettled .
next
  case (ChatSettled i oc)
  from ci_inv_ChatSettled [OF assms] show ?thesis unfolding ChatSettled .
next
  case (DeleteSettled i now oc)
  from ci_inv_DeleteSettled [OF assms] show ?thesis unfolding DeleteSettled .
qed

lemma ci_inv_foldl: "ci_inv sys \<Longrightarrow> ci_inv (foldl (ci_step backendUrl) sys evs)"
  by (induction evs arbitrary: sys) (simp_all add: ci_inv_step)

lemma ci_inv_run: "ci_inv (ci_run backendUrl kbId evs)"
  by (simp add: ci_run_def ci_inv_foldl ci_inv_mounted)



lemma KbIdChanged_aborts:
  assumes inv: "ci_inv sys" and p: "p \<in> set (sys_pending sys)" and hc: "is_chat p \<or> is_history p"
  shows "aborted_by (sys_historyAbortController sys
           # (case ci_abortControllerRef (sys_state sys) of Some c \<Rightarrow> [c] | None \<Rightarrow> [])) p"
proof -
  from inv have ok: "\<forall>p \<in> set (sys_pending sys). pending_ok sys p" by (simp add: ci_inv_def)
  from p hc pending_ok_chat_ref [OF ok, of p] pending_ok_history_ctrl [OF ok, of p]
  show ?thesis by (auto simp: aborted_by_def)
qed

lemma not_aborted_other:
  "\<not> is_chat p \<Longrightarrow> \<not> is_history p \<Longrightarrow> \<not> aborted_by cs p"
  by (cases p) (simp_all add: aborted_by_def)

lemma issued_for_inv:
  assumes "ci_inv sys" and "sys_kbId sys \<noteq> []" and "p \<in> set (sys_pending sys)"
      and "issued_for p = Some k"
  shows "k = sys_kbId sys"
proof -
  from assms(1,3) have "pending_ok sys p" by (simp add: ci_inv_def)
  with assms(2,4) show ?thesis by (cases p) auto
qed

text \<open>
  What the abort signals achieve. In every state ChatInterface can reach, a change of
  \<open>kbId\<close> to a non-empty id aborts every history fetch and every chat request in flight:
  the cleanup aborts the controller of the history fetch, \<open>loadHistory\<close> aborts the
  controller in \<open>abortControllerRef\<close>, and every such request carries one of the two.
  What stays in flight are the history deletes and the history fetch of the new agent; the
  message list is empty. From then on, in every later state with an agent selected, each
  history fetch or chat request in flight was issued for that agent.
\<close>

theorem change_aborts_fetch_and_chat:
  assumes "sys = ci_run backendUrl kbId0 evs" and "kbId \<noteq> []"
      and "sys' = ci_step backendUrl sys (KbIdChanged kbId)"
  shows "(\<forall>p \<in> set (sys_pending sys). is_chat p \<or> is_history p \<longrightarrow>
            aborted_by (sys_historyAbortController sys
              # (case ci_abortControllerRef (sys_state sys) of Some c \<Rightarrow> [c] | None \<Rightarrow> [])) p)
       \<and> sys_pending sys' = filter (\<lambda>p. \<not> is_chat p \<and> \<not> is_history p) (sys_pending sys)
                               @ [HistoryFetch kbId (sys_nextController sys)]
       \<and> ci_messages (sys_state sys') = []
       \<and> (\<forall>later p k. sys_kbId (foldl (ci_step backendUrl) sys' later) \<noteq> []
             \<and> p \<in> set (sys_pending (foldl (ci_step backendUrl) sys' later))
             \<and> issued_for p = Some k
           \<longrightarrow> k = sys_kbId (foldl (ci_step backendUrl) sys' later))"
proof -
  let ?cs = "sys_historyAbortController sys
               # (case ci_abortControllerRef (sys_state sys) of Some c \<Rightarrow> [c] | None \<Rightarrow> [])"
  from assms(1) have inv: "ci_inv sys" by (simp add: ci_inv_run)
  have ab: "\<forall>p \<in> set (sys_pending sys). is_chat p \<or> is_history p \<longrightarrow> aborted_by ?cs p"
    using KbIdChanged_aborts [OF inv] by blast
  have "filter (\<lambda>p. \<not> aborted_by ?cs p) (sys_pending sys)
          = filter (\<lambda>p. \<not> is_chat p \<and> \<not> is_history p) (sys_pending sys)"
    using ab not_aborted_other by (intro filter_cong) auto
  with assms(2,3) have ps: "sys_pending sys'
      = filter (\<lambda>p. \<not> is_chat p \<and> \<not> is_history p) (sys_pending sys)
        @ [HistoryFetch kbId (sys_nextController sys)]"
    by (simp add: loadHistory_def after_handler_def)
  from assms(2,3) have msgs: "ci_messages (sys_state sys') = []"
    by (simp add: loadHistory_def after_handler_def foldl_abort_messages)
  from inv assms(3) have inv': "ci_inv sys'" by (simp only: ci_inv_step)
  have later: "k = sys_kbId (foldl (ci_step backendUrl) sys' later)"
    if "sys_kbId (foldl (ci_step backendUrl) sys' later) \<noteq> []"
       "p \<in> set (sys_pending (foldl (ci_step backendUrl) sys' later))"
       "issued_for p = Some k" for later p k
    using issued_for_inv [OF ci_inv_foldl [OF inv'] that] .
  from ab ps msgs later show ?thesis by blast
qed

theorem change_aborts_fetch_and_chat_witness:
  "sys_pending ci_session = [ChatPost ''kb1'' 1 ''ai-loading-2'']
 \<and> sys_pending (ci_step ''http://b'' ci_session (KbIdChanged ''kb2'')) = [HistoryFetch ''kb2'' 2]
 \<and> ci_messages (sys_state (ci_step ''http://b'' ci_session (KbIdChanged ''kb2''))) = []"
proof -
  have before: "sys_pending ci_session = [ChatPost ''kb1'' 1 ''ai-loading-2'']"
    and nxt: "sys_nextController ci_session = 2"
    by (simp_all add: ci_session_def ci_run_def ci_mounted_def loadHistory_def history_empty_200_def
          loadHistory_settled_def loadHistory_try_def ok_def formattedHistory_def remove_nth_def
          handleSendMessage_def trim_def is_whitespace_def after_handler_def aborted_by_def Let_def
          string_of_nat.simps digit_def)
  have "''kb2'' \<noteq> []" by simp
  from change_aborts_fetch_and_chat [OF ci_session_def this refl]
  have "sys_pending (ci_step ''http://b'' ci_session (KbIdChanged ''kb2''))
          = filter (\<lambda>p. \<not> is_chat p \<and> \<not> is_history p) (sys_pending ci_session)
            @ [HistoryFetch ''kb2'' (sys_nextController ci_session)]"
    and "ci_messages (sys_state (ci_step ''http://b'' ci_session (KbIdChanged ''kb2''))) = []"
    by blast+
  with before nxt show ?thesis by simp
qed

lemma ci_switched_session_eval:
  "ci_switched_session =
     \<lparr>sys_kbId = ''kb2'',
      sys_state =
        \<lparr>ci_messages =
           [\<lparr>msg_id = ''hist-kb2-0'', msg_sender = User, msg_text = ''hello'',
             msg_isLoading = None, msg_messageType = ''user''\<rparr>],
         ci_userInput = [], ci_isLoading = False, ci_isHistoryLoading = False,
         ci_historyError = None, ci_isClearingHistory = True, ci_clearHistoryError = None,
         ci_abortControllerRef = None\<rparr>,
      sys_historyAbortController = 1, sys_nextController = 2,
      sys_pending = [HistoryDelete ''kb1'']\<rparr>"
  by (simp add: ci_switched_session_def ci_run_def ci_mounted_def loadHistory_def
        history_empty_200_def history_kb2_200_def loadHistory_settled_def loadHistory_try_def
        ok_def formattedHistory_def remove_nth_def handleClearHistory_def after_handler_def
        aborted_by_def Let_def string_of_nat.simps digit_def enumerate_eq_zip)

text \<open>
  C2 says that after a change of the selected agent no response for the previous agent can
  update the message list. The history fetch and the chat request are aborted, but the
  DELETE of \<open>handleClearHistory\<close> carries no abort signal. In the session above it was
  issued for \<open>kb1\<close> and is still in flight when \<open>kb2\<close> is selected and its history is
  shown; when it then succeeds, its handler replaces the history of \<open>kb2\<close> by the welcome
  message.
\<close>

theorem stale_clear_replaces_history:
  "sys_kbId ci_switched_session = ''kb2''
 \<and> sys_pending ci_switched_session = [HistoryDelete ''kb1'']
 \<and> ci_messages (sys_state ci_switched_session)
     = formattedHistory ''kb2'' [\<lparr>hi_type = ''human'', hi_content = ''hello''\<rparr>]
 \<and> ci_messages (sys_state (ci_step ''http://b'' ci_switched_session
                                (DeleteSettled 0 5 (Resolved response_204))))
     = [welcomeMessage 5]"
  by (simp add: ci_switched_session_eval handleClearHistory_settled_def handleClearHistory_try_def
        response_204_def ok_def formattedHistory_def remove_nth_def string_of_nat.simps digit_def
        enumerate_eq_zip)

lemma ci_session_eval:
  "ci_session =
     \<lparr>sys_kbId = ''kb1'',
      sys_state =
        \<lparr>ci_messages =
           [welcomeMessage 1,
            \<lparr>msg_id = ''user-2'', msg_sender = User, msg_text = ''hi'',
             msg_isLoading = None, msg_messageType = ''user''\<rparr>,
            \<lparr>msg_id = ''ai-loading-2'', msg_sender = Ai, msg_text = [],
             msg_isLoading = Some True, msg_messageType = ''ai''\<rparr>],
         ci_userInput = [], ci_isLoading = True, ci_isHistoryLoading = False,
         ci_historyError = None, ci_isClearingHistory = False, ci_clearHistoryError = None,
         ci_abortControllerRef = Some 1\<rparr>,
      sys_historyAbortController = 0, sys_nextController = 2,
      sys_pending = [ChatPost ''kb1'' 1 ''ai-loading-2'']\<rparr>"
  by (simp add: ci_session_def ci_run_def ci_mounted_def loadHistory_def history_empty_200_def
        loadHistory_settled_def loadHistory_try_def ok_def formattedHistory_def remove_nth_def
        handleSendMessage_def trim_def is_whitespace_def after_handler_def aborted_by_def Let_def
        string_of_nat.simps digit_def)

lemma ci_cleared_session_eval:
  "ci_cleared_session =
     \<lparr>sys_kbId = ''kb1'',
      sys_state =
        \<lparr>ci_messages = [welcomeMessage 3],
         ci_userInput = [], ci_isLoading = True, ci_isHistoryLoading = False,
         ci_historyError = None, ci_isClearingHistory = False, ci_clearHistoryError = None,
         ci_abortControllerRef = Some 1\<rparr>,
      sys_historyAbortController = 0, sys_nextController = 2,
      sys_pending = [ChatPost ''kb1'' 1 ''ai-loading-2'']\<rparr>"
  by (simp add: ci_cleared_session_def ci_session_eval handleClearHistory_def
        handleClearHistory_settled_def handleClearHistory_try_def response_204_def ok_def
        after_handler_def remove_nth_def Let_def)

text \<open>
  C3 says that a request of ChatInterface that fails with an \<open>AbortError\<close> is not
  surfaced, whereas any other failure sets an error message. The catch of the chat POST
  writes the error into the placeholder message of the request, and misses the case where
  the placeholder is no longer in the list. In the session above the history was cleared
  while the request was in flight; the request then fails with status 500, the list stays
  the welcome message, and no error state is set.
\<close>

theorem chat_failure_sets_no_error:
  "handleSendMessage_try chat_500 = Inl (JSError ''Error'' ''HTTP error! status: 500, details: boom'')
 \<and> sys_state (ci_step ''http://b'' ci_cleared_session (ChatSettled 0 chat_500))
     = \<lparr>ci_messages = [welcomeMessage 3],
        ci_userInput = [], ci_isLoading = False, ci_isHistoryLoading = False,
        ci_historyError = None, ci_isClearingHistory = False, ci_clearHistoryError = None,
        ci_abortControllerRef = None\<rparr>"
  by (simp add: ci_cleared_session_eval handleSendMessage_settled_def handleSendMessage_try_def
        chat_500_def ok_def new_Error_def welcomeMessage_def or_else_def
        string_of_nat.simps digit_def)

lemma map_if_hit:
  "x \<in> set xs \<Longrightarrow> P x \<Longrightarrow> g x \<in> set (map (\<lambda>m. if P m then g m else m) xs)"
  by (induction xs) auto

text \<open>
  The two catch branches. A history fetch or chat POST that fails with an \<open>AbortError\<close> (the request
  or the reading of its body) sets no error state and leaves the message list as it is: the
  history handler only resets \<open>isHistoryLoading\<close>, so that \<open>historyError\<close> is still the
  \<open>null\<close> that \<open>loadHistory\<close> set, and the chat handler only resets \<open>isLoading\<close> and the
  ref. Any other failure of the history fetch sets \<open>historyError\<close> and replaces the list by
  one error message; any other failure of the chat POST turns its placeholder message into
  an error message, when the placeholder is in the list.
\<close>

theorem abort_not_surfaced:
  "(loadHistory_try kbId oc = Inl e \<and> err_name e = ''AbortError'' \<longrightarrow>
      loadHistory_settled kbId now oc st = st\<lparr>ci_isHistoryLoading := False\<rparr>
    \<and> (kbId \<noteq> [] \<longrightarrow>
          ci_historyError (loadHistory_settled kbId now oc (fst (loadHistory backendUrl kbId st))) = None))
 \<and> (loadHistory_try kbId oc = Inl e \<and> err_name e \<noteq> ''AbortError'' \<longrightarrow>
      ci_historyError (loadHistory_settled kbId now oc st)
        = Some (or_else (err_message e) ''Failed to load chat history.'')
    \<and> (\<exists>m. ci_messages (loadHistory_settled kbId now oc st) = [m] \<and> msg_messageType m = ''error''
           \<and> msg_text m = ''Error loading history: '' @ or_else (err_message e) ''Unknown error''))
 \<and> (handleSendMessage_try oc' = Inl e' \<and> err_name e' = ''AbortError'' \<longrightarrow>
      handleSendMessage_settled pid oc' st = st\<lparr>ci_isLoading := False, ci_abortControllerRef := None\<rparr>)
 \<and> (handleSendMessage_try oc' = Inl e' \<and> err_name e' \<noteq> ''AbortError''
      \<and> pid \<in> msg_id ` set (ci_messages st) \<longrightarrow>
      (\<exists>m \<in> set (ci_messages (handleSendMessage_settled pid oc' st)).
          msg_id m = pid \<and> msg_messageType m = ''error''
        \<and> msg_text m = ''Error: '' @ or_else (err_message e') ''Failed to get response''))"
proof -
  have a: "loadHistory_try kbId oc = Inl e \<and> err_name e = ''AbortError'' \<longrightarrow>
      loadHistory_settled kbId now oc st = st\<lparr>ci_isHistoryLoading := False\<rparr>
    \<and> (kbId \<noteq> [] \<longrightarrow>
          ci_historyError (loadHistory_settled kbId now oc (fst (loadHistory backendUrl kbId st))) = None)"
    by (simp add: loadHistory_settled_def loadHistory_def)
  have b: "loadHistory_try kbId oc = Inl e \<and> err_name e \<noteq> ''AbortError'' \<longrightarrow>
      ci_historyError (loadHistory_settled kbId now oc st)
        = Some (or_else (err_message e) ''Failed to load chat history.'')
    \<and> (\<exists>m. ci_messages (loadHistory_settled kbId now oc st) = [m] \<and> msg_messageType m = ''error''
           \<and> msg_text m = ''Error loading history: '' @ or_else (err_message e) ''Unknown error'')"
    by (simp add: loadHistory_settled_def)
  have c: "handleSendMessage_try oc' = Inl e' \<and> err_name e' = ''AbortError'' \<longrightarrow>
      handleSendMessage_settled pid oc' st = st\<lparr>ci_isLoading := False, ci_abortControllerRef := None\<rparr>"
    by (simp add: handleSendMessage_settled_def)
  have d: "handleSendMessage_try oc' = Inl e' \<and> err_name e' \<noteq> ''AbortError''
      \<and> pid \<in> msg_id ` set (ci_messages st) \<longrightarrow>
      (\<exists>m \<in> set (ci_messages (handleSendMessage_settled pid oc' st)).
          msg_id m = pid \<and> msg_messageType m = ''error''
        \<and> msg_text m = ''Error: '' @ or_else (err_message e') ''Failed to get response'')"
  proof (intro impI, elim conjE)
    assume t: "handleSendMessage_try oc' = Inl e'" and n: "err_name e' \<noteq> ''AbortError''"
      and "pid \<in> msg_id ` set (ci_messages st)"
    then obtain x where x: "x \<in> set (ci_messages st)" "msg_id x = pid" by auto
    let ?g = "\<lambda>msg. msg\<lparr>msg_text := ''Error: '' @ or_else (err_message e') ''Failed to get response'',
                          msg_isLoading := Some False, msg_messageType := ''error''\<rparr>"
    from map_if_hit [of x "ci_messages st" "\<lambda>m. msg_id m = pid" ?g] x
    have "?g x \<in> set (ci_messages (handleSendMessage_settled pid oc' st))"
      using t n by (simp add: handleSendMessage_settled_def)
    moreover from x have "msg_id (?g x) = pid" by simp
    ultimately show "\<exists>m \<in> set (ci_messages (handleSendMessage_settled pid oc' st)).
          msg_id m = pid \<and> msg_messageType m = ''error''
        \<and> msg_text m = ''Error: '' @ or_else (err_message e') ''Failed to get response''"
      by (intro bexI [of _ "?g x"]) simp_all
  qed
  from a b c d show ?thesis by (intro conjI)
qed

theorem abort_not_surfaced_witness:
  "loadHistory_settled ''kb1'' 5 (Rejected AbortError) ci_example
     = ci_example\<lparr>ci_isHistoryLoading := False\<rparr>
 \<and> ci_historyError (loadHistory_settled ''kb1'' 5 (Rejected AbortError)
       (fst (loadHistory ''http://b'' ''kb1'' ci_example))) = None
 \<and> handleSendMessage_settled ''ai-loading-2'' (Rejected AbortError) (sys_state ci_session)
     = (sys_state ci_session)\<lparr>ci_isLoading := False, ci_abortControllerRef := None\<rparr>
 \<and> ci_historyError (loadHistory_settled ''kb1'' 5
       (Rejected (JSError ''TypeError'' ''Failed to fetch'')) ci_example) = Some ''Failed to fetch''
 \<and> msg_messageType (ci_messages (handleSendMessage_settled ''ai-loading-2'' chat_500
       (sys_state ci_session)) ! 2) = ''error''"
proof -
  have t1: "loadHistory_try ''kb1'' (Rejected AbortError) = Inl AbortError \<and> err_name AbortError = ''AbortError''"
    by (simp add: loadHistory_try_def AbortError_def)
  have t2: "handleSendMessage_try (Rejected AbortError) = Inl AbortError \<and> err_name AbortError = ''AbortError''"
    by (simp add: handleSendMessage_try_def AbortError_def)
  have t3: "loadHistory_try ''kb1'' (Rejected (JSError ''TypeError'' ''Failed to fetch''))
              = Inl (JSError ''TypeError'' ''Failed to fetch'')
            \<and> err_name (JSError ''TypeError'' ''Failed to fetch'') \<noteq> ''AbortError''"
    by (simp add: loadHistory_try_def)
  have t4: "handleSendMessage_try chat_500 = Inl (JSError ''Error'' ''HTTP error! status: 500, details: boom'')
            \<and> err_name (JSError ''Error'' ''HTTP error! status: 500, details: boom'') \<noteq> ''AbortError''
            \<and> ''ai-loading-2'' \<in> msg_id ` set (ci_messages (sys_state ci_session))"
    by (simp add: handleSendMessage_try_def chat_500_def ok_def new_Error_def or_else_def
          string_of_nat.simps digit_def ci_session_eval)
  from abort_not_surfaced [where kbId = "''kb1''" and oc = "Rejected AbortError" and e = AbortError
      and now = 5 and st = ci_example and backendUrl = "''http://b''"
      and oc' = "Rejected AbortError" and e' = AbortError and pid = "''ai-loading-2''"] t1
  have 1: "loadHistory_settled ''kb1'' 5 (Rejected AbortError) ci_example
             = ci_example\<lparr>ci_isHistoryLoading := False\<rparr>"
    and 2: "ci_historyError (loadHistory_settled ''kb1'' 5 (Rejected AbortError)
             (fst (loadHistory ''http://b'' ''kb1'' ci_example))) = None"
    by simp_all
  from abort_not_surfaced [where kbId = "''kb1''" and oc = "Rejected AbortError" and e = AbortError
      and now = 5 and st = "sys_state ci_session" and backendUrl = "''http://b''"
      and oc' = "Rejected AbortError" and e' = AbortError and pid = "''ai-loading-2''"] t2
  have 3: "handleSendMessage_settled ''ai-loading-2'' (Rejected AbortError) (sys_state ci_session)
             = (sys_state ci_session)\<lparr>ci_isLoading := False, ci_abortControllerRef := None\<rparr>"
    by simp
  from abort_not_surfaced [where kbId = "''kb1''"
      and oc = "Rejected (JSError ''TypeError'' ''Failed to fetch'')"
      and e = "JSError ''TypeError'' ''Failed to fetch''"
      and now = 5 and st = ci_example and backendUrl = "''http://b''"
      and oc' = "Rejected AbortError" and e' = AbortError and pid = "''ai-loading-2''"] t3
  have 4: "ci_historyError (loadHistory_settled ''kb1'' 5
             (Rejected (JSError ''TypeError'' ''Failed to fetch'')) ci_example) = Some ''Failed to fetch''"
    by (simp add: or_else_def)
  from abort_not_surfaced [where kbId = "''kb1''" and oc = "Rejected AbortError" and e = AbortError
      and now = 5 and st = "sys_state ci_session" and backendUrl = "''http://b''"
      and oc' = chat_500 and e' = "JSError ''Error'' ''HTTP error! status: 500, details: boom''"
      and pid = "''ai-loading-2''"] t4
  have "\<exists>m \<in> set (ci_messages (handleSendMessage_settled ''ai-loading-2'' chat_500 (sys_state ci_session))).
          msg_id m = ''ai-loading-2'' \<and> msg_messageType m = ''error''"
    by blast
  moreover have "ci_messages (handleSendMessage_settled ''ai-loading-2'' chat_500 (sys_state ci_session))
      = [welcomeMessage 1,
         \<lparr>msg_id = ''user-2'', msg_sender = User, msg_text = ''hi'',
          msg_isLoading = None, msg_messageType = ''user''\<rparr>,
         \<lparr>msg_id = ''ai-loading-2'', msg_sender = Ai,
          msg_text = ''Error: HTTP error! status: 500, details: boom'',
          msg_isLoading = Some False, msg_messageType = ''error''\<rparr>]"
    using t4 by (simp add: handleSendMessage_settled_def ci_session_eval welcomeMessage_def or_else_def
                   string_of_nat.simps digit_def)
  ultimately have 5: "msg_messageType (ci_messages (handleSendMessage_settled ''ai-loading-2'' chat_500
       (sys_state ci_session)) ! 2) = ''error''"
    by simp
  from 1 2 3 4 5 show ?thesis by (intro conjI)
qed

section \<open>The REST surface\<close>










section \<open>Failed requests\<close>











end
